theory Spec2Isabelle
  imports Complex_Main
begin

section \<open>Python values shared by the services\<close>

text \<open>
  Exceptions are values.  \<open>HTTPException\<close> carries the status code and the detail
  string that FastAPI turns into the error response; every other exception is named by
  its Python class.
\<close>

datatype py_exception =
    HTTPException nat string
  | FileDataError
  | FileNotFoundError
  | PermissionError
  | IndexError
  | ValueError
  | ZeroDivisionError
  | RuntimeError

text \<open>
  A Python \<open>str\<close> is a sequence of Unicode code points, and \<open>len\<close> counts them.  Text
  whose content matters beyond ASCII (the text of a page, a form field that is parsed)
  is a list of code points, each the integer that \<open>ord\<close> gives.  \<open>code_points\<close> gives
  the code points of a literal.
\<close>

type_synonym unicode = "int list"

definition code_points :: "string \<Rightarrow> unicode" where
  "code_points s = map of_char s"

text \<open>
  \<open>str.isspace\<close> on one code point, and \<open>str.strip()\<close>, which removes leading and
  trailing whitespace: TAB, LF, VT, FF, CR, the separators FS..US, the blank, NEL,
  the no-break space, and the spaces and separators above Latin-1.
\<close>

definition unicode_whitespace :: "int list" where
  "unicode_whitespace =
     [0x09, 0x0A, 0x0B, 0x0C, 0x0D, 0x1C, 0x1D, 0x1E, 0x1F, 0x20, 0x85, 0xA0,
      0x1680, 0x2000, 0x2001, 0x2002, 0x2003, 0x2004, 0x2005, 0x2006, 0x2007,
      0x2008, 0x2009, 0x200A, 0x2028, 0x2029, 0x202F, 0x205F, 0x3000]"

definition py_isspace :: "int \<Rightarrow> bool" where
  "py_isspace c = (c \<in> set unicode_whitespace)"

definition py_strip :: "unicode \<Rightarrow> unicode" where
  "py_strip s = rev (dropWhile py_isspace (rev (dropWhile py_isspace s)))"


section \<open>PDF analysis: \<open>analyze_pdf_type\<close> (services/pdf/convert.py)\<close>

text \<open>
  What the analysis reads of a PyMuPDF page: the plain text of \<open>page.get_text()\<close> and
  the list \<open>page.get_images()\<close> (one cross-reference number per image).  A document is
  the list of its pages; loading or reading a page may raise, so each entry is either
  the exception or the page.  \<open>fitz.open\<close> itself may raise as well.
\<close>

record fitz_page =
  get_text :: unicode
  get_images :: "nat list"

type_synonym fitz_document = "(py_exception + fitz_page) list"

type_synonym fitz_open = "string \<Rightarrow> py_exception + fitz_document"

record pdf_analysis =
  is_scanned :: bool
  is_complex :: bool
  has_text :: bool
  image_count :: nat
  text_length :: nat
  page_count :: nat
  recommendation :: string

text \<open>
  The loop \<open>for page_num in range(min(10, page_count))\<close>, run over the pages it visits
  with the two running totals; an exception leaves the loop.
\<close>

fun scan_pages :: "fitz_document \<Rightarrow> nat \<times> nat \<Rightarrow> py_exception + nat \<times> nat" where
  "scan_pages [] totals = Inr totals"
| "scan_pages (Inl e # rest) totals = Inl e"
| "scan_pages (Inr page # rest) (total_text_length, total_images) =
     scan_pages rest
       (total_text_length + length (py_strip (get_text page)),
        total_images + length (get_images page))"

text \<open>The dictionary of the \<open>except Exception\<close> branch.\<close>

definition analysis_on_error :: pdf_analysis where
  "analysis_on_error =
     \<lparr> is_scanned = False, is_complex = True, has_text = False,
       image_count = 0, text_length = 0, page_count = 0,
       recommendation = ''image'' \<rparr>"

definition analyze_pdf_type :: "fitz_open \<Rightarrow> string \<Rightarrow> pdf_analysis" where
  "analyze_pdf_type open_pdf pdf_path =
     (case open_pdf pdf_path of
        Inl e \<Rightarrow> analysis_on_error
      | Inr pdf_doc \<Rightarrow>
          (let page_count' = length pdf_doc in
           case scan_pages (take (min 10 page_count') pdf_doc) (0, 0) of
             Inl e \<Rightarrow> analysis_on_error
           | Inr (total_text_length, total_images) \<Rightarrow>
               (let has_text' = (total_text_length > 100);
                    has_many_images = (total_images \<ge> page_count');
                    is_scanned' = (total_text_length < 100 \<and> total_images > 0);
                    is_complex' = (has_text' \<and> has_many_images);
                    recommendation' =
                      (if is_scanned' then ''ocr''
                       else if is_complex' then ''hybrid''
                       else if has_text' \<and> \<not> has_many_images then ''text''
                       else ''image'')
                in \<lparr> is_scanned = is_scanned', is_complex = is_complex',
                     has_text = has_text', image_count = total_images,
                     text_length = total_text_length, page_count = page_count',
                     recommendation = recommendation' \<rparr>)))"

text \<open>
  The quantities the specification names.  The pages the loop visits are the first
  \<open>min(10, page_count)\<close> ones; \<open>L\<close> is the total length of their stripped texts and
  \<open>I\<close> the total number of their images.
\<close>

definition sampled_pages :: "fitz_document \<Rightarrow> fitz_document" where
  "sampled_pages pdf_doc = take (min 10 (length pdf_doc)) pdf_doc"

definition sampled_text_length :: "fitz_page list \<Rightarrow> nat" where
  "sampled_text_length pages = sum_list (map (\<lambda>p. length (py_strip (get_text p))) pages)"

definition sampled_image_count :: "fitz_page list \<Rightarrow> nat" where
  "sampled_image_count pages = sum_list (map (\<lambda>p. length (get_images p)) pages)"

text \<open>
  The analysis reads a document when \<open>fitz.open\<close> returns it and every page the loop
  visits is read; \<open>pages_read\<close> gives those pages.
\<close>

definition is_read :: "py_exception + fitz_page \<Rightarrow> bool" where
  "is_read entry = (case entry of Inl e \<Rightarrow> False | Inr page \<Rightarrow> True)"

definition pages_of :: "fitz_document \<Rightarrow> fitz_page list" where
  "pages_of entries =
     List.map_filter (\<lambda>entry. case entry of Inl e \<Rightarrow> None | Inr page \<Rightarrow> Some page) entries"

definition pages_read :: "fitz_open \<Rightarrow> string \<Rightarrow> fitz_page list option" where
  "pages_read open_pdf pdf_path =
     (case open_pdf pdf_path of
        Inl e \<Rightarrow> None
      | Inr pdf_doc \<Rightarrow>
          if list_all is_read (sampled_pages pdf_doc)
          then Some (pages_of (sampled_pages pdf_doc))
          else None)"

definition document_length :: "fitz_open \<Rightarrow> string \<Rightarrow> nat" where
  "document_length open_pdf pdf_path =
     (case open_pdf pdf_path of Inl e \<Rightarrow> 0 | Inr pdf_doc \<Rightarrow> length pdf_doc)"


section \<open>Strings, integers and paths as Python has them\<close>

text \<open>\<open>str.lower()\<close> on the ASCII letters.\<close>

definition py_lower_char :: "char \<Rightarrow> char" where
  "py_lower_char c =
     (case map_of (zip ''ABCDEFGHIJKLMNOPQRSTUVWXYZ'' ''abcdefghijklmnopqrstuvwxyz'') c of
        Some l \<Rightarrow> l
      | None \<Rightarrow> c)"

definition py_lower :: "string \<Rightarrow> string" where
  "py_lower s = map py_lower_char s"

text \<open>\<open>needle in haystack\<close> for strings: a contiguous occurrence.\<close>

fun py_in :: "string \<Rightarrow> string \<Rightarrow> bool" where
  "py_in needle [] = (needle = [])"
| "py_in needle (c # cs) = (take (length needle) (c # cs) = needle \<or> py_in needle cs)"

text \<open>\<open>s.split(sep)\<close> for a one-character separator: empty fields are kept.\<close>

fun py_split :: "'a \<Rightarrow> 'a list \<Rightarrow> 'a list list" where
  "py_split sep [] = [[]]"
| "py_split sep (c # cs) =
     (if c = sep then [] # py_split sep cs
      else (case py_split sep cs of
              [] \<Rightarrow> [[c]]
            | w # ws \<Rightarrow> (c # w) # ws))"

text \<open>\<open>sep.join(xs)\<close>.\<close>

fun py_join :: "string \<Rightarrow> string list \<Rightarrow> string" where
  "py_join sep [] = []"
| "py_join sep [x] = x"
| "py_join sep (x # y # ys) = x @ sep @ py_join sep (y # ys)"

text \<open>\<open>s.rfind('.')\<close>: the index of the last dot, or \<open>-1\<close>.\<close>

definition py_rfind_dot :: "string \<Rightarrow> int" where
  "py_rfind_dot s =
     (if CHR ''.'' \<in> set s
      then int (length s) - 1 - int (length (takeWhile (\<lambda>c. c \<noteq> CHR ''.'') (rev s)))
      else - 1)"

text \<open>\<open>str(n)\<close> for an integer, as the f-strings print it.\<close>

definition digit_char :: "nat \<Rightarrow> char" where
  "digit_char d = ''0123456789'' ! d"

fun digits10 :: "nat \<Rightarrow> string" where
  "digits10 n = (if n < 10 then [digit_char n] else digits10 (n div 10) @ [digit_char (n mod 10)])"

definition py_str_int :: "int \<Rightarrow> string" where
  "py_str_int i = (if i < 0 then CHR ''-'' # digits10 (nat (- i)) else digits10 (nat i))"

text \<open>
  The decimal digits of Unicode come in runs of ten, each starting at a digit zero;
  \<open>py_decimal\<close> is the value of a code point that is a decimal digit.
\<close>

definition decimal_zeros :: "int list" where
  "decimal_zeros =
     [0x30, 0x660, 0x6F0, 0x7C0, 0x966, 0x9E6, 0xA66, 0xAE6, 0xB66, 0xBE6, 0xC66,
      0xCE6, 0xD66, 0xDE6, 0xE50, 0xED0, 0xF20, 0x1040, 0x1090, 0x17E0, 0x1810,
      0x1946, 0x19D0, 0x1A80, 0x1A90, 0x1B50, 0x1BB0, 0x1C40, 0x1C50, 0xA620,
      0xA8D0, 0xA900, 0xA9D0, 0xA9F0, 0xAA50, 0xABF0, 0xFF10, 0x104A0, 0x10D30,
      0x11066, 0x110F0, 0x11136, 0x111D0, 0x112F0, 0x11450, 0x114D0, 0x11650,
      0x116C0, 0x11730, 0x118E0, 0x11950, 0x11C50, 0x11D50, 0x11DA0, 0x16A60,
      0x16AC0, 0x16B50, 0x1D7CE, 0x1D7D8, 0x1D7E2, 0x1D7EC, 0x1D7F6, 0x1E140,
      0x1E2F0, 0x1E950, 0x1FBF0]"

definition py_decimal :: "int \<Rightarrow> nat option" where
  "py_decimal c =
     (case filter (\<lambda>z. z \<le> c \<and> c < z + 10) decimal_zeros of
        [] \<Rightarrow> None
      | z # zs \<Rightarrow> Some (nat (c - z)))"

text \<open>
  \<open>int(s)\<close> for a string, in base ten.  Surrounding whitespace is dropped (the
  whitespace of \<open>str.isspace\<close> but for the separators FS..US, which \<open>int\<close> does not
  accept), one sign is allowed, and the digits, of any script, may be grouped by single
  underscores between digits.  More than 4300 digits are refused.  Anything else
  raises \<open>ValueError\<close> as well.
\<close>

definition int_isspace :: "int \<Rightarrow> bool" where
  "int_isspace c = (py_isspace c \<and> \<not> (0x1C \<le> c \<and> c \<le> 0x1F))"

definition int_strip :: "unicode \<Rightarrow> unicode" where
  "int_strip s = rev (dropWhile int_isspace (rev (dropWhile int_isspace s)))"

definition is_digit :: "int \<Rightarrow> bool" where
  "is_digit c = (py_decimal c \<noteq> None)"

definition digit_value :: "int \<Rightarrow> nat" where
  "digit_value c = (case py_decimal c of None \<Rightarrow> 0 | Some d \<Rightarrow> d)"

fun well_grouped :: "unicode \<Rightarrow> bool" where
  "well_grouped [] = False"
| "well_grouped [c] = is_digit c"
| "well_grouped (c # d # cs) =
     (is_digit c \<and> (if d = 0x5F then well_grouped cs else well_grouped (d # cs)))"

definition decimal_value :: "unicode \<Rightarrow> nat" where
  "decimal_value ds = foldl (\<lambda>acc c. 10 * acc + digit_value c) 0 ds"

definition MAX_STR_DIGITS :: int where
  "MAX_STR_DIGITS = 4300"

definition py_int :: "unicode \<Rightarrow> py_exception + int" where
  "py_int s =
     (let t = int_strip s;
          negative = (t \<noteq> [] \<and> hd t = 0x2D);
          body = (if t \<noteq> [] \<and> (hd t = 0x2D \<or> hd t = 0x2B) then tl t else t);
          digits = filter (\<lambda>c. c \<noteq> 0x5F) body
      in if well_grouped body \<and> int (length digits) \<le> MAX_STR_DIGITS
         then (let v = int (decimal_value digits)
               in Inr (if negative then - v else v))
         else Inl ValueError)"

text \<open>
  \<open>pathlib.Path\<close> on a POSIX system.  A path is its root (\<open>''''\<close>, \<open>''/''\<close> or
  \<open>''//''\<close>) and its components; parsing drops empty components and \<open>.\<close>.
\<close>

record py_path =
  root :: string
  parts :: "string list"

definition Path :: "string \<Rightarrow> py_path" where
  "Path s =
     \<lparr> root = (if take 1 s = ''/'' then
                  (if take 2 s = ''//'' \<and> take 3 s \<noteq> ''///'' then ''//'' else ''/'')
               else ''''),
       parts = filter (\<lambda>x. x \<noteq> [] \<and> x \<noteq> ''.'') (py_split CHR ''/'' s) \<rparr>"

definition path_str :: "py_path \<Rightarrow> string" where
  "path_str p =
     (if root p = [] \<and> parts p = [] then ''.'' else root p @ py_join ''/'' (parts p))"

text \<open>\<open>p / other\<close>: an absolute right operand replaces the left one.\<close>

definition path_joinpath :: "py_path \<Rightarrow> string \<Rightarrow> py_path" where
  "path_joinpath p other =
     (let q = Path other
      in if root q \<noteq> [] then q else \<lparr> root = root p, parts = parts p @ parts q \<rparr>)"

definition path_name :: "py_path \<Rightarrow> string" where
  "path_name p = (if parts p = [] then [] else last (parts p))"

definition path_suffix :: "py_path \<Rightarrow> string" where
  "path_suffix p =
     (let name = path_name p; i = py_rfind_dot name
      in if 0 < i \<and> i < int (length name) - 1 then drop (nat i) name else [])"

definition path_stem :: "py_path \<Rightarrow> string" where
  "path_stem p =
     (let name = path_name p; i = py_rfind_dot name
      in if 0 < i \<and> i < int (length name) - 1 then take (nat i) name else name)"

text \<open>
  \<open>p.with_suffix(suffix)\<close> for a suffix that starts with a dot, as every call of the
  services passes; a path without a name raises \<open>ValueError\<close>.
\<close>

definition path_with_suffix :: "py_path \<Rightarrow> string \<Rightarrow> py_exception + py_path" where
  "path_with_suffix p suffix =
     (let name = path_name p in
      if name = [] then Inl ValueError
      else (let old_suffix = path_suffix p;
                name' = (if old_suffix = [] then name @ suffix
                         else take (length name - length old_suffix) name @ suffix)
            in Inr (p\<lparr> parts := butlast (parts p) @ [name'] \<rparr>)))"


section \<open>PDF to Word: the converters and \<open>pdf_to_word\<close> (services/pdf/convert.py)\<close>

text \<open>
  Each converter ends with \<open>doc.save(output_path); return output_path\<close> after a body of
  library calls (rendering, OCR, pdf2docx).  The body either completes or raises; which
  of the two is given by the environment, per body, input and output path.
\<close>

datatype converter_body = Pdf2docxBody | ImageBody | HybridBody | OcrBody | AdvancedBody

record convert_env =
  env_open :: fitz_open
  env_raises :: "converter_body \<Rightarrow> string \<Rightarrow> string \<Rightarrow> py_exception option"

text \<open>
  \<open>if output_path is None: output_path = str(Path(pdf_path).with_suffix('.docx'))\<close>,
  the first statement of every converter.
\<close>

definition with_suffix_str :: "string \<Rightarrow> string \<Rightarrow> py_exception + string" where
  "with_suffix_str path suffix =
     (case path_with_suffix (Path path) suffix of
        Inl e \<Rightarrow> Inl e
      | Inr q \<Rightarrow> Inr (path_str q))"

definition docx_output_path :: "string \<Rightarrow> string option \<Rightarrow> py_exception + string" where
  "docx_output_path pdf_path output_path =
     (case output_path of
        Some p \<Rightarrow> Inr p
      | None \<Rightarrow> with_suffix_str pdf_path ''.docx'')"

definition run_body ::
  "convert_env \<Rightarrow> converter_body \<Rightarrow> string \<Rightarrow> string \<Rightarrow> py_exception + string" where
  "run_body env body pdf_path output_path =
     (case env_raises env body pdf_path output_path of
        Some e \<Rightarrow> Inl e
      | None \<Rightarrow> Inr output_path)"

definition pdf_to_word_image_mode ::
  "convert_env \<Rightarrow> string \<Rightarrow> string option \<Rightarrow> py_exception + string" where
  "pdf_to_word_image_mode env pdf_path output_path =
     (case docx_output_path pdf_path output_path of
        Inl e \<Rightarrow> Inl e
      | Inr out \<Rightarrow> run_body env ImageBody pdf_path out)"

definition pdf_to_word_hybrid_mode ::
  "convert_env \<Rightarrow> string \<Rightarrow> string option \<Rightarrow> py_exception + string" where
  "pdf_to_word_hybrid_mode env pdf_path output_path =
     (case docx_output_path pdf_path output_path of
        Inl e \<Rightarrow> Inl e
      | Inr out \<Rightarrow> run_body env HybridBody pdf_path out)"

definition pdf_to_word_advanced ::
  "convert_env \<Rightarrow> string \<Rightarrow> string option \<Rightarrow> py_exception + string" where
  "pdf_to_word_advanced env pdf_path output_path =
     (case docx_output_path pdf_path output_path of
        Inl e \<Rightarrow> Inl e
      | Inr out \<Rightarrow> run_body env AdvancedBody pdf_path out)"

definition is_image_based_pdf :: "convert_env \<Rightarrow> string \<Rightarrow> bool" where
  "is_image_based_pdf env pdf_path = is_scanned (analyze_pdf_type (env_open env) pdf_path)"

definition pdf_to_word_with_ocr ::
  "convert_env \<Rightarrow> string \<Rightarrow> string option \<Rightarrow> py_exception + string" where
  "pdf_to_word_with_ocr env pdf_path output_path =
     (case docx_output_path pdf_path output_path of
        Inl e \<Rightarrow> Inl e
      | Inr out \<Rightarrow>
          (let needs_ocr = is_image_based_pdf env pdf_path
           in if needs_ocr then run_body env OcrBody pdf_path out
              else pdf_to_word_advanced env pdf_path (Some out)))"

text \<open>
  The \<open>try: cv = PDFToDocxConverter(pdf_path); cv.convert(output_path); cv.close();
  return output_path / except Exception: return pdf_to_word_advanced(...)\<close> block,
  which occurs twice in \<open>pdf_to_word\<close>.
\<close>

definition pdf2docx_or_advanced ::
  "convert_env \<Rightarrow> string \<Rightarrow> string \<Rightarrow> py_exception + string" where
  "pdf2docx_or_advanced env pdf_path out =
     (case run_body env Pdf2docxBody pdf_path out of
        Inr p \<Rightarrow> Inr p
      | Inl e \<Rightarrow> pdf_to_word_advanced env pdf_path (Some out))"

definition pdf_to_word ::
  "convert_env \<Rightarrow> string \<Rightarrow> string option \<Rightarrow> string \<Rightarrow> py_exception + string" where
  "pdf_to_word env pdf_path output_path mode =
     (case docx_output_path pdf_path output_path of
        Inl e \<Rightarrow> Inl e
      | Inr out \<Rightarrow>
          (if mode = ''auto'' then
             (let analysis = analyze_pdf_type (env_open env) pdf_path;
                  recommendation' = recommendation analysis
              in if recommendation' = ''text'' then pdf2docx_or_advanced env pdf_path out
                 else if recommendation' = ''ocr'' then pdf_to_word_with_ocr env pdf_path (Some out)
                 else if recommendation' = ''hybrid'' then
                   pdf_to_word_hybrid_mode env pdf_path (Some out)
                 else pdf_to_word_image_mode env pdf_path (Some out))
           else if mode = ''hybrid'' then pdf_to_word_hybrid_mode env pdf_path (Some out)
           else if mode = ''image'' then pdf_to_word_image_mode env pdf_path (Some out)
           else if mode = ''ocr'' then pdf_to_word_with_ocr env pdf_path (Some out)
           else if mode = ''text'' then pdf2docx_or_advanced env pdf_path out
           else pdf_to_word_hybrid_mode env pdf_path (Some out)))"

text \<open>
  The dispatch as the documentation words it: which conversion a mode selects, given
  the recommendation of the analysis.
\<close>

datatype conversion =
    Pdf2docx_with_advanced_fallback
  | With_ocr
  | Hybrid_mode
  | Image_mode

definition documented_conversion :: "string \<Rightarrow> string \<Rightarrow> conversion" where
  "documented_conversion mode recommended =
     (if mode = ''auto'' then
        (if recommended = ''text'' then Pdf2docx_with_advanced_fallback
         else if recommended = ''ocr'' then With_ocr
         else if recommended = ''hybrid'' then Hybrid_mode
         else Image_mode)
      else if mode = ''hybrid'' then Hybrid_mode
      else if mode = ''image'' then Image_mode
      else if mode = ''ocr'' then With_ocr
      else if mode = ''text'' then Pdf2docx_with_advanced_fallback
      else Hybrid_mode)"

fun run_conversion ::
  "convert_env \<Rightarrow> conversion \<Rightarrow> string \<Rightarrow> string \<Rightarrow> py_exception + string" where
  "run_conversion env Pdf2docx_with_advanced_fallback pdf_path out =
     (case env_raises env Pdf2docxBody pdf_path out of
        None \<Rightarrow> Inr out
      | Some e \<Rightarrow> pdf_to_word_advanced env pdf_path (Some out))"
| "run_conversion env With_ocr pdf_path out = pdf_to_word_with_ocr env pdf_path (Some out)"
| "run_conversion env Hybrid_mode pdf_path out = pdf_to_word_hybrid_mode env pdf_path (Some out)"
| "run_conversion env Image_mode pdf_path out = pdf_to_word_image_mode env pdf_path (Some out)"

text \<open>The bodies a conversion runs last: if that one completes, the conversion returns.\<close>

definition last_body :: "convert_env \<Rightarrow> conversion \<Rightarrow> string \<Rightarrow> string \<Rightarrow> converter_body" where
  "last_body env c pdf_path out =
     (case c of
        Pdf2docx_with_advanced_fallback \<Rightarrow>
          (if env_raises env Pdf2docxBody pdf_path out = None then Pdf2docxBody else AdvancedBody)
      | With_ocr \<Rightarrow> (if is_image_based_pdf env pdf_path then OcrBody else AdvancedBody)
      | Hybrid_mode \<Rightarrow> HybridBody
      | Image_mode \<Rightarrow> ImageBody)"


section \<open>The PDF editor: \<open>PDFEditor.replace_text\<close> and \<open>redact_text\<close> (services/pdf/editor.py)\<close>

text \<open>
  The editor works on PyMuPDF pages through five primitives.  A page is an abstract
  value \<open>'pg\<close>; the library is a record of functions on it.  \<open>get_text_dict\<close> is
  \<open>page.get_text("dict")["blocks"]\<close>: a text block (type 0) is its lines, each the list
  of its spans, and an image block (type 1) carries nothing the editor reads.
\<close>

record fitz_rect =
  x0 :: real
  y0 :: real
  x1 :: real
  y1 :: real

record text_span =
  span_text :: string
  span_font :: string
  span_size :: real
  span_color :: nat

datatype text_block = TextBlock "text_span list list" | ImageBlock

type_synonym rgb = "real \<times> real \<times> real"

text \<open>
  The keyword arguments of one \<open>page.insert_text\<close> call; an argument the call does not
  pass is \<open>None\<close> (the library then takes its default, the font \<open>helv\<close>).
\<close>

record insert_text_args =
  arg_point :: "real \<times> real"
  arg_text :: string
  arg_fontname :: "string option"
  arg_fontsize :: real
  arg_color :: rgb

record 'pg fitz_api =
  search_for :: "'pg \<Rightarrow> string \<Rightarrow> fitz_rect list"
  get_text_dict :: "'pg \<Rightarrow> text_block list"
  add_redact_annot :: "'pg \<Rightarrow> fitz_rect \<Rightarrow> rgb option \<Rightarrow> 'pg"
  apply_redactions :: "'pg \<Rightarrow> 'pg"
  insert_text :: "'pg \<Rightarrow> insert_text_args \<Rightarrow> 'pg"

text \<open>
  \<open>self.doc[page_num]\<close>: PyMuPDF refuses an index at or beyond the page count with
  \<open>IndexError\<close> and counts a negative index from the end, adding the page count until
  it is non-negative.  The result is the position of the page.  (On a document without
  pages a negative index has no page to reach; it is an error here.)
\<close>

definition fitz_getitem :: "'pg list \<Rightarrow> int \<Rightarrow> py_exception + nat" where
  "fitz_getitem doc i =
     (let n = int (length doc)
      in if i \<ge> n then Inl IndexError
         else if n = 0 then Inl RuntimeError
         else Inr (nat (i mod n)))"

text \<open>\<open>pages = page_nums if page_nums else range(len(self.doc))\<close>.\<close>

definition pages_or_all :: "int list option \<Rightarrow> 'pg list \<Rightarrow> int list" where
  "pages_or_all page_nums doc =
     (case page_nums of
        None \<Rightarrow> map int [0..<length doc]
      | Some [] \<Rightarrow> map int [0..<length doc]
      | Some (p # ps) \<Rightarrow> p # ps)"

text \<open>
  The formatting of a span as \<open>replace_text\<close> reads it: font name, size, and the colour
  \<open>((c >> 16) / 255, ((c >> 8) & 0xFF) / 255, (c & 0xFF) / 255)\<close>.
\<close>

type_synonym text_format = "string \<times> real \<times> rgb"

definition span_format :: "text_span \<Rightarrow> text_format" where
  "span_format sp =
     (let c = span_color sp
      in (span_font sp, span_size sp,
          (real (c div 65536) / 255, real ((c div 256) mod 256) / 255, real (c mod 256) / 255)))"

text \<open>
  The three nested loops that look for the formatting.  The \<open>break\<close> leaves the loop
  over the spans of one line only: the search goes on with the next line.
\<close>

fun format_in_line :: "string \<Rightarrow> text_span list \<Rightarrow> text_format \<Rightarrow> text_format" where
  "format_in_line old_text [] fmt = fmt"
| "format_in_line old_text (sp # spans) fmt =
     (if py_in old_text (span_text sp) then span_format sp
      else format_in_line old_text spans fmt)"

fun format_in_blocks :: "string \<Rightarrow> text_block list \<Rightarrow> text_format \<Rightarrow> text_format" where
  "format_in_blocks old_text [] fmt = fmt"
| "format_in_blocks old_text (TextBlock lines # blocks) fmt =
     format_in_blocks old_text blocks (fold (format_in_line old_text) lines fmt)"
| "format_in_blocks old_text (ImageBlock # blocks) fmt =
     format_in_blocks old_text blocks fmt"

text \<open>The arguments of the \<open>insert_text\<close> call for one occurrence.\<close>

definition replacement_args ::
  "'pg fitz_api \<Rightarrow> 'pg \<Rightarrow> string \<Rightarrow> string \<Rightarrow> fitz_rect \<Rightarrow> insert_text_args" where
  "replacement_args api page old_text new_text inst =
     (let blocks = get_text_dict api page;
          (font_name, font_size, color) =
             format_in_blocks old_text blocks (''helv'', 12, (0, 0, 0))
      in \<lparr> arg_point = (x0 inst, y1 inst), arg_text = new_text, arg_fontname = None,
           arg_fontsize = font_size, arg_color = color \<rparr>)"

text \<open>The loop \<open>for inst in text_instances\<close> on one page, with the running count.\<close>

fun replace_instances ::
  "'pg fitz_api \<Rightarrow> string \<Rightarrow> string \<Rightarrow> fitz_rect list \<Rightarrow> 'pg \<times> nat \<Rightarrow> 'pg \<times> nat" where
  "replace_instances api old_text new_text [] state = state"
| "replace_instances api old_text new_text (inst # rest) (page, count) =
     (let args = replacement_args api page old_text new_text inst;
          redacted = apply_redactions api (add_redact_annot api page inst None);
          inserted = insert_text api redacted args
      in replace_instances api old_text new_text rest (inserted, count + 1))"

text \<open>The loop \<open>for page_num in pages\<close>; the document is updated in place.\<close>

fun replace_in_pages ::
  "'pg fitz_api \<Rightarrow> string \<Rightarrow> string \<Rightarrow> int list \<Rightarrow> 'pg list \<times> nat
     \<Rightarrow> py_exception + 'pg list \<times> nat" where
  "replace_in_pages api old_text new_text [] state = Inr state"
| "replace_in_pages api old_text new_text (page_num # rest) (doc, count) =
     (case fitz_getitem doc page_num of
        Inl e \<Rightarrow> Inl e
      | Inr i \<Rightarrow>
          (let page = doc ! i;
               text_instances = search_for api page old_text;
               (page', count') =
                  replace_instances api old_text new_text text_instances (page, count)
           in replace_in_pages api old_text new_text rest (doc[i := page'], count')))"

definition replace_text ::
  "'pg fitz_api \<Rightarrow> 'pg list \<Rightarrow> string \<Rightarrow> string \<Rightarrow> int list option
     \<Rightarrow> py_exception + 'pg list \<times> nat" where
  "replace_text api doc old_text new_text page_nums =
     replace_in_pages api old_text new_text (pages_or_all page_nums doc) (doc, 0)"





text \<open>
  A page that records what is done to it, for worked examples: its blocks, the
  rectangles a search returns, and the calls made so far.
\<close>

datatype page_call =
    Add_redact_annot fitz_rect "rgb option"
  | Apply_redactions
  | Insert_text insert_text_args

record recorded_page =
  page_blocks :: "text_block list"
  page_hits :: "string \<Rightarrow> fitz_rect list"
  page_calls :: "page_call list"

definition recording_api :: "recorded_page fitz_api" where
  "recording_api =
     \<lparr> search_for = (\<lambda>page needle. page_hits page needle),
       get_text_dict = page_blocks,
       add_redact_annot =
         (\<lambda>page rect fill. page\<lparr> page_calls := page_calls page @ [Add_redact_annot rect fill] \<rparr>),
       apply_redactions =
         (\<lambda>page. page\<lparr> page_calls := page_calls page @ [Apply_redactions] \<rparr>),
       insert_text =
         (\<lambda>page args. page\<lparr> page_calls := page_calls page @ [Insert_text args] \<rparr>) \<rparr>"


section \<open>Files on disk and the helpers of utils/file.py\<close>

text \<open>
  A file on disk is its size in bytes and its modification time, and two facts of the
  operating system about it: whether \<open>os.stat\<close> on it raises, and whether \<open>os.remove\<close>
  on it raises.  The file system lists the files under their parsed paths, so that
  \<open>./uploads/a.pdf\<close> and \<open>uploads/a.pdf\<close> name one file.  Times are real numbers of
  seconds.
\<close>

record fs_file =
  st_size :: nat
  st_mtime :: real
  stat_error :: "py_exception option"
  remove_error :: "py_exception option"

type_synonym filesystem = "(py_path \<times> fs_file) list"

definition fs_write :: "filesystem \<Rightarrow> py_path \<Rightarrow> fs_file \<Rightarrow> filesystem" where
  "fs_write fs key f = (key, f) # filter (\<lambda>(k, _). k \<noteq> key) fs"

definition fs_delete :: "filesystem \<Rightarrow> py_path \<Rightarrow> filesystem" where
  "fs_delete fs key = filter (\<lambda>(k, _). k \<noteq> key) fs"

text \<open>
  \<open>os.stat\<close> and \<open>os.remove\<close> on a parsed path, and on a path string;
  \<open>os.path.exists(p)\<close> is false when \<open>os.stat\<close> raises.
\<close>

definition stat_key :: "filesystem \<Rightarrow> py_path \<Rightarrow> py_exception + fs_file" where
  "stat_key fs key =
     (case map_of fs key of
        None \<Rightarrow> Inl FileNotFoundError
      | Some f \<Rightarrow> (case stat_error f of Some e \<Rightarrow> Inl e | None \<Rightarrow> Inr f))"

definition remove_key :: "filesystem \<Rightarrow> py_path \<Rightarrow> py_exception + filesystem" where
  "remove_key fs key =
     (case map_of fs key of
        None \<Rightarrow> Inl FileNotFoundError
      | Some f \<Rightarrow> (case remove_error f of Some e \<Rightarrow> Inl e | None \<Rightarrow> Inr (fs_delete fs key)))"


definition os_stat :: "filesystem \<Rightarrow> string \<Rightarrow> py_exception + fs_file" where
  "os_stat fs p = stat_key fs (Path p)"

definition os_path_exists :: "filesystem \<Rightarrow> string \<Rightarrow> bool" where
  "os_path_exists fs p = (case os_stat fs p of Inl e \<Rightarrow> False | Inr f \<Rightarrow> True)"

definition os_remove :: "filesystem \<Rightarrow> string \<Rightarrow> py_exception + filesystem" where
  "os_remove fs p = remove_key fs (Path p)"

text \<open>A file that \<open>cleanup_file\<close> can remove: it is there, and neither call raises.\<close>

definition removable :: "fs_file option \<Rightarrow> bool" where
  "removable v =
     (case v of
        None \<Rightarrow> False
      | Some f \<Rightarrow> stat_error f = None \<and> remove_error f = None)"

text \<open>
  \<open>cleanup_file\<close>: \<open>try: if os.path.exists(file_path): os.remove(file_path) /
  except Exception: pass\<close>.  It returns the file system it leaves; it has no way to
  raise.
\<close>

definition cleanup_file :: "filesystem \<Rightarrow> string \<Rightarrow> filesystem" where
  "cleanup_file fs file_path =
     (if os_path_exists fs file_path then
        (case os_remove fs file_path of
           Inl e \<Rightarrow> fs
         | Inr fs' \<Rightarrow> fs')
      else fs)"

fun cleanup_files :: "filesystem \<Rightarrow> string list \<Rightarrow> filesystem" where
  "cleanup_files fs [] = fs"
| "cleanup_files fs (path # file_paths) = cleanup_files (cleanup_file fs path) file_paths"

text \<open>
  An upload as the validators and \<open>save_upload_file\<close> read it: the client's file name
  (\<open>file.filename\<close>, possibly absent) and the length of the content.
\<close>

record upload_file =
  filename :: "string option"
  content_length :: nat

text \<open>\<open>file.filename or fallback\<close>, and \<open>not file.filename\<close>.\<close>

definition filename_or :: "upload_file \<Rightarrow> string \<Rightarrow> string" where
  "filename_or file fallback =
     (case filename file of
        None \<Rightarrow> fallback
      | Some name \<Rightarrow> if name = [] then fallback else name)"

definition no_filename :: "upload_file \<Rightarrow> bool" where
  "no_filename file = (case filename file of None \<Rightarrow> True | Some name \<Rightarrow> name = [])"

definition get_file_extension :: "string \<Rightarrow> string" where
  "get_file_extension name = py_lower (path_suffix (Path name))"

definition validate_pdf_file :: "upload_file \<Rightarrow> py_exception + unit" where
  "validate_pdf_file file =
     (if no_filename file then Inl (HTTPException 400 ''No filename provided'')
      else (let ext = get_file_extension (the (filename file))
            in if ext \<noteq> ''.pdf'' then Inl (HTTPException 400 ''File must be a PDF'')
               else Inr ()))"

definition valid_extensions :: "string list" where
  "valid_extensions = [''.png'', ''.jpg'', ''.jpeg'', ''.webp'', ''.gif'', ''.bmp'', ''.tiff'']"

definition validate_image_file :: "upload_file \<Rightarrow> py_exception + unit" where
  "validate_image_file file =
     (if no_filename file then Inl (HTTPException 400 ''No filename provided'')
      else (let ext = get_file_extension (the (filename file))
            in if ext \<notin> set valid_extensions
               then Inl (HTTPException 400
                      (''Invalid image format. Supported: '' @ py_join '', '' valid_extensions))
               else Inr ()))"

text \<open>
  The application settings (config.py) the handlers read, with their defaults.
\<close>

record settings =
  UPLOAD_DIR :: string
  DOWNLOAD_DIR :: string

definition default_settings :: settings where
  "default_settings = \<lparr> UPLOAD_DIR = ''./uploads'', DOWNLOAD_DIR = ''./downloads'' \<rparr>"

text \<open>
  \<open>int(x)\<close> for a float: truncation towards zero.
\<close>

definition py_int_of_float :: "real \<Rightarrow> int" where
  "py_int_of_float x = (if x \<ge> 0 then \<lfloor>x\<rfloor> else \<lceil>x\<rceil>)"

text \<open>
  \<open>generate_filename\<close>.  The clock reading of \<open>time.time()\<close> and the first eight hex
  digits of \<open>uuid.uuid4()\<close> are inputs.
\<close>

definition generate_filename :: "string \<Rightarrow> string option \<Rightarrow> real \<Rightarrow> string \<Rightarrow> string" where
  "generate_filename original_name extension now unique_id =
     (let base_name = path_stem (Path original_name);
          ext = (case extension of
                   None \<Rightarrow> path_suffix (Path original_name)
                 | Some e \<Rightarrow> if e = [] then path_suffix (Path original_name) else e);
          timestamp = py_int_of_float now
      in base_name @ ''_'' @ py_str_int timestamp @ ''_'' @ unique_id @ ext)"

text \<open>
  \<open>save_upload_file\<close>: the content is written under \<open>UPLOAD_DIR/subdir\<close> with a
  generated name, and the path is returned as a string.  The file is new: written at
  the time of the call, readable and removable.
\<close>

definition save_upload_file ::
  "settings \<Rightarrow> filesystem \<Rightarrow> upload_file \<Rightarrow> string \<Rightarrow> real \<Rightarrow> string
     \<Rightarrow> filesystem \<times> string" where
  "save_upload_file cfg fs file subdir now unique_id =
     (let upload_dir = path_joinpath (Path (UPLOAD_DIR cfg)) subdir;
          name = generate_filename (filename_or file ''file'') None now unique_id;
          file_path = path_str (path_joinpath upload_dir name)
      in (fs_write fs (Path file_path)
            \<lparr> st_size = content_length file, st_mtime = now, stat_error = None,
              remove_error = None \<rparr>,
          file_path))"


section \<open>Splitting a PDF: \<open>split_pdf\<close> (services/pdf/operations.py)\<close>

text \<open>
  \<open>PdfReader(pdf_path)\<close> gives the pages of the file or raises; a page is an abstract
  value \<open>'p\<close>.  \<open>reader.pages[i]\<close> is Python indexing: a negative index counts from the
  end, and an index out of range raises \<open>IndexError\<close>.
\<close>

type_synonym 'p pdf_reader = "string \<Rightarrow> py_exception + 'p list"

definition py_getitem :: "'a list \<Rightarrow> int \<Rightarrow> py_exception + 'a" where
  "py_getitem xs i =
     (if 0 \<le> i \<and> i < int (length xs) then Inr (xs ! nat i)
      else if - int (length xs) \<le> i \<and> i < 0 then Inr (xs ! nat (int (length xs) + i))
      else Inl IndexError)"

text \<open>\<open>range(a, b)\<close>, and the truth value of an optional integer and of an optional list.\<close>

definition py_range :: "int \<Rightarrow> int \<Rightarrow> int list" where
  "py_range a b = [a..b - 1]"

definition truthy_int :: "int option \<Rightarrow> bool" where
  "truthy_int v = (case v of None \<Rightarrow> False | Some i \<Rightarrow> i \<noteq> 0)"

definition truthy_list :: "'a list option \<Rightarrow> bool" where
  "truthy_list v = (case v of None \<Rightarrow> False | Some xs \<Rightarrow> xs \<noteq> [])"

text \<open>
  \<open>for i in ...: writer.add_page(reader.pages[i])\<close>: the pages the writer has collected.
\<close>

fun add_pages :: "'p list \<Rightarrow> int list \<Rightarrow> 'p list \<Rightarrow> py_exception + 'p list" where
  "add_pages reader_pages [] writer = Inr writer"
| "add_pages reader_pages (i # rest) writer =
     (case py_getitem reader_pages i of
        Inl e \<Rightarrow> Inl e
      | Inr page \<Rightarrow> add_pages reader_pages rest (writer @ [page]))"

text \<open>The three file names.\<close>

definition page_file :: "string \<Rightarrow> string \<Rightarrow> int \<Rightarrow> string" where
  "page_file output_dir base_name i =
     output_dir @ ''/'' @ base_name @ ''_page_'' @ py_str_int (i + 1) @ ''.pdf''"

definition range_file :: "string \<Rightarrow> string \<Rightarrow> int \<Rightarrow> int \<Rightarrow> string" where
  "range_file output_dir base_name start_page end_page =
     output_dir @ ''/'' @ base_name @ ''_pages_'' @ py_str_int start_page @ ''-''
       @ py_str_int end_page @ ''.pdf''"

definition extract_file :: "string \<Rightarrow> string \<Rightarrow> int list \<Rightarrow> string" where
  "extract_file output_dir base_name page_list =
     (let pages_str = py_join ''_'' (map py_str_int (take 5 page_list));
          pages_str' = (if length page_list > 5 then pages_str @ ''_etc'' else pages_str)
      in output_dir @ ''/'' @ base_name @ ''_extracted_'' @ pages_str' @ ''.pdf'')"

text \<open>
  \<open>split_pdf\<close>.  The result lists the files written, in order, each with the pages it
  holds; the list of output paths the function returns is the list of their names.
\<close>

definition split_pdf ::
  "'p pdf_reader \<Rightarrow> string \<Rightarrow> string \<Rightarrow> string \<Rightarrow> int option \<Rightarrow> int option
     \<Rightarrow> int list option \<Rightarrow> py_exception + (string \<times> 'p list) list" where
  "split_pdf reader pdf_path output_dir mode start_page end_page page_list =
     (case reader pdf_path of
        Inl e \<Rightarrow> Inl e
      | Inr reader_pages \<Rightarrow>
          (let total_pages = int (length reader_pages);
               base_name = path_stem (Path pdf_path)
           in if mode = ''all'' then
                Inr (map (\<lambda>i. (page_file output_dir base_name (int i), [reader_pages ! i]))
                       [0..<length reader_pages])
              else if mode = ''range'' \<and> truthy_int start_page \<and> truthy_int end_page then
                (case add_pages reader_pages
                        (py_range (the start_page - 1) (min (the end_page) total_pages)) [] of
                   Inl e \<Rightarrow> Inl e
                 | Inr writer \<Rightarrow>
                     Inr [(range_file output_dir base_name (the start_page) (the end_page),
                           writer)])
              else if mode = ''extract'' \<and> truthy_list page_list then
                (case add_pages reader_pages
                        (map (\<lambda>page_num. page_num - 1)
                           (filter (\<lambda>page_num. 1 \<le> page_num \<and> page_num \<le> total_pages)
                              (the page_list))) [] of
                   Inl e \<Rightarrow> Inl e
                 | Inr writer \<Rightarrow>
                     Inr [(extract_file output_dir base_name (the page_list), writer)])
              else Inr []))"


section \<open>The request handlers (api/v1/pdf.py)\<close>

text \<open>
  The JSON a handler answers with.  \<open>FileResponse\<close> of models/schemas.py has a download
  URL, the file name, the size and the processing time; the split handler answers with
  a dictionary that holds a list of per-file dictionaries and one processing time.
\<close>

record file_info =
  file_url :: string
  file_name :: string
  file_size :: nat

record file_response = file_info +
  success :: bool
  processing_time :: real

record split_response =
  split_success :: bool
  split_files :: "file_info list"
  split_processing_time :: real

text \<open>
  What a handler reads from the clock and from \<open>uuid4\<close>, in the order it reads it: the
  start of the request, the time and the identifier for the name of the saved upload,
  the time and the identifier for the name of the output, and the time at the end.  The
  split handler reads the clock once more for each file it lists.
\<close>

record request_readings =
  start_time :: real
  save_time :: real
  save_uuid :: string
  name_time :: real
  name_uuid :: string
  end_time :: real

record split_readings = request_readings +
  entry_time :: "nat \<Rightarrow> real"

text \<open>
  \<open>try: ... finally: cleanup_file(input_path)\<close>.  The block leaves a file system and
  either a value or an exception; the cleanup runs on that file system in both cases,
  and the value or the exception is passed on.
\<close>

definition try_finally_cleanup ::
  "filesystem \<times> (py_exception + 'a) \<Rightarrow> string list \<Rightarrow> filesystem \<times> (py_exception + 'a)" where
  "try_finally_cleanup outcome input_paths =
     (cleanup_files (fst outcome) input_paths, snd outcome)"

text \<open>
  The handler of \<open>POST /pdf/to-word\<close>.  The conversion is \<open>pdf_to_word\<close> of the
  conversion service; what it and the libraries under it leave on disk is the
  transformation \<open>disk input_path output_path\<close>, whatever the outcome.
\<close>

definition to_word_block ::
  "settings \<Rightarrow> convert_env \<Rightarrow> (string \<Rightarrow> string \<Rightarrow> filesystem \<Rightarrow> filesystem)
     \<Rightarrow> request_readings \<Rightarrow> filesystem \<Rightarrow> upload_file \<Rightarrow> string \<Rightarrow> string
     \<Rightarrow> filesystem \<times> (py_exception + file_response)" where
  "to_word_block cfg env disk clock fs file mode input_path =
     (let output_filename =
            generate_filename (filename_or file ''document'') (Some ''.docx'')
              (name_time clock) (name_uuid clock);
          output_path = DOWNLOAD_DIR cfg @ ''/'' @ output_filename;
          fs' = disk input_path output_path fs
      in case pdf_to_word env input_path (Some output_path) mode of
           Inl e \<Rightarrow> (fs', Inl e)
         | Inr returned \<Rightarrow>
             (case os_stat fs' output_path of
                Inl e \<Rightarrow> (fs', Inl e)
              | Inr f \<Rightarrow>
                  (fs', Inr \<lparr> file_url = ''/downloads/'' @ output_filename,
                              file_name = output_filename,
                              file_size = st_size f,
                              success = True,
                              processing_time = end_time clock - start_time clock \<rparr>)))"

definition pdf_to_word_endpoint ::
  "settings \<Rightarrow> convert_env \<Rightarrow> (string \<Rightarrow> string \<Rightarrow> filesystem \<Rightarrow> filesystem)
     \<Rightarrow> request_readings \<Rightarrow> filesystem \<Rightarrow> upload_file \<Rightarrow> string
     \<Rightarrow> filesystem \<times> (py_exception + file_response)" where
  "pdf_to_word_endpoint cfg env disk clock fs file mode =
     (case validate_pdf_file file of
        Inl e \<Rightarrow> (fs, Inl e)
      | Inr ok \<Rightarrow>
          (let (fs', input_path) =
                 save_upload_file cfg fs file ''pdf'' (save_time clock) (save_uuid clock)
           in try_finally_cleanup
                (to_word_block cfg env disk clock fs' file mode input_path) [input_path]))"

text \<open>
  The handler of \<open>POST /pdf/split\<close>.  The mode is a value of the enumeration
  \<open>PDFSplitMode\<close> (its members \<open>ALL\<close>, \<open>RANGE\<close>, \<open>EXTRACT\<close>); \<open>pages\<close> is the
  comma-separated form field, a text of Unicode code points.
\<close>

datatype PDFSplitMode = SPLIT_ALL | SPLIT_RANGE | SPLIT_EXTRACT

fun mode_value :: "PDFSplitMode \<Rightarrow> string" where
  "mode_value SPLIT_ALL = ''all''"
| "mode_value SPLIT_RANGE = ''range''"
| "mode_value SPLIT_EXTRACT = ''extract''"

text \<open>\<open>[int(p.strip()) for p in pages.split(",")]\<close>.\<close>

fun parse_ints :: "unicode list \<Rightarrow> py_exception + int list" where
  "parse_ints [] = Inr []"
| "parse_ints (p # ps) =
     (case py_int (py_strip p) of
        Inl e \<Rightarrow> Inl e
      | Inr i \<Rightarrow> (case parse_ints ps of Inl e \<Rightarrow> Inl e | Inr js \<Rightarrow> Inr (i # js)))"

definition parse_page_list :: "unicode option \<Rightarrow> py_exception + int list option" where
  "parse_page_list pages_field =
     (case pages_field of
        None \<Rightarrow> Inr None
      | Some s \<Rightarrow>
          if s = [] then Inr None
          else (case parse_ints (py_split 0x2C s) of
                  Inl e \<Rightarrow> Inl e
                | Inr js \<Rightarrow> Inr (Some js)))"

text \<open>
  Writing the split files: each becomes a file of the size the PDF writer gives its
  pages (\<open>pdf_size\<close>), new at the time of writing.
\<close>

fun write_pdfs ::
  "('p list \<Rightarrow> nat) \<Rightarrow> real \<Rightarrow> filesystem \<Rightarrow> (string \<times> 'p list) list \<Rightarrow> filesystem" where
  "write_pdfs pdf_size now fs [] = fs"
| "write_pdfs pdf_size now fs ((path, pdf_pages) # rest) =
     write_pdfs pdf_size now
       (fs_write fs (Path path)
          \<lparr> st_size = pdf_size pdf_pages, st_mtime = now, stat_error = None,
            remove_error = None \<rparr>)
       rest"

text \<open>
  The loop that builds \<open>files_info\<close>; \<open>k\<close> counts the entries built so far, and each
  entry reads the clock for its URL.
\<close>

fun files_info ::
  "filesystem \<Rightarrow> (nat \<Rightarrow> real) \<Rightarrow> nat \<Rightarrow> string list \<Rightarrow> py_exception + file_info list" where
  "files_info fs clock_at k [] = Inr []"
| "files_info fs clock_at k (path # output_paths) =
     (let name = path_name (Path path)
      in case os_stat fs path of
           Inl e \<Rightarrow> Inl e
         | Inr f \<Rightarrow>
             (case files_info fs clock_at (Suc k) output_paths of
                Inl e \<Rightarrow> Inl e
              | Inr infos \<Rightarrow>
                  Inr (\<lparr> file_url = ''/downloads/split_''
                                      @ py_str_int (py_int_of_float (clock_at k))
                                      @ ''/'' @ name,
                          file_name = name,
                          file_size = st_size f \<rparr> # infos)))"

definition split_block ::
  "settings \<Rightarrow> 'p pdf_reader \<Rightarrow> ('p list \<Rightarrow> nat) \<Rightarrow> split_readings \<Rightarrow> filesystem
     \<Rightarrow> PDFSplitMode \<Rightarrow> int option \<Rightarrow> int option \<Rightarrow> unicode option \<Rightarrow> string
     \<Rightarrow> filesystem \<times> (py_exception + split_response)" where
  "split_block cfg reader pdf_size clock fs mode start_page end_page pages_field input_path =
     (let output_dir =
            DOWNLOAD_DIR cfg @ ''/split_'' @ py_str_int (py_int_of_float (name_time clock))
      in case parse_page_list pages_field of
           Inl e \<Rightarrow> (fs, Inl e)
         | Inr page_list \<Rightarrow>
             (case split_pdf reader input_path output_dir (mode_value mode)
                     start_page end_page page_list of
                Inl e \<Rightarrow> (fs, Inl e)
              | Inr written \<Rightarrow>
                  (let fs' = write_pdfs pdf_size (name_time clock) fs written;
                       processing_time' = end_time clock - start_time clock
                   in case files_info fs' (entry_time clock) 0 (map fst written) of
                        Inl e \<Rightarrow> (fs', Inl e)
                      | Inr infos \<Rightarrow>
                          (fs', Inr \<lparr> split_success = True, split_files = infos,
                                      split_processing_time = processing_time' \<rparr>))))"

definition split_pdf_endpoint ::
  "settings \<Rightarrow> 'p pdf_reader \<Rightarrow> ('p list \<Rightarrow> nat) \<Rightarrow> split_readings \<Rightarrow> filesystem
     \<Rightarrow> upload_file \<Rightarrow> PDFSplitMode \<Rightarrow> int option \<Rightarrow> int option \<Rightarrow> unicode option
     \<Rightarrow> filesystem \<times> (py_exception + split_response)" where
  "split_pdf_endpoint cfg reader pdf_size clock fs file mode start_page end_page pages_field =
     (case validate_pdf_file file of
        Inl e \<Rightarrow> (fs, Inl e)
      | Inr ok \<Rightarrow>
          (let (fs', input_path) =
                 save_upload_file cfg fs file ''split'' (save_time clock) (save_uuid clock)
           in try_finally_cleanup
                (split_block cfg reader pdf_size clock fs' mode start_page end_page
                   pages_field input_path)
                [input_path]))"


section \<open>The periodic sweep: \<open>cleanup_old_files\<close> (tasks/workers.py)\<close>











section \<open>Passport photos: \<open>create_passport_photo\<close> (services/image/passport.py)\<close>

text \<open>
  The arithmetic of the service is floating-point.  A float operation is the exact
  operation followed by rounding to a double, and the rounding is the parameter \<open>fl\<close>
  of the model; decimal literals such as \<open>0.9\<close> are rounded as well.  Integers of the
  size of pixel counts convert to doubles exactly, and \<open>a / b\<close> on two integers is the
  rounded exact quotient.  The properties below hold for every rounding that is
  accurate to one part in \<open>2^53\<close>, as rounding to the nearest double is where nothing
  overflows or underflows.
\<close>

type_synonym rounding = "real \<Rightarrow> real"

definition accurate :: "rounding \<Rightarrow> bool" where
  "accurate fl = (\<forall>x. \<bar>fl x - x\<bar> \<le> \<bar>x\<bar> / 2 ^ 53)"

definition PASSPORT_SIZES :: "(string \<times> int \<times> int) list" where
  "PASSPORT_SIZES =
     [(''us'', (51, 51)), (''uk'', (35, 45)), (''eu'', (35, 45)), (''india'', (35, 45)),
      (''china'', (33, 48)), (''japan'', (35, 45)), (''canada'', (50, 70)),
      (''australia'', (35, 45))]"

definition PRINT_DPI :: int where
  "PRINT_DPI = 300"

text \<open>\<open>int(mm * dpi / 25.4)\<close>, on an integer number of millimetres.\<close>

definition mm_to_pixels :: "rounding \<Rightarrow> int \<Rightarrow> int" where
  "mm_to_pixels fl mm = py_int_of_float (fl (of_int (mm * PRINT_DPI) / fl (254 / 10)))"

text \<open>
  \<open>size.lower()\<close> is compared with the keys of \<open>PASSPORT_SIZES\<close>, which are ASCII.
  The lower-case form of a code point is an ASCII character for the ASCII characters
  and for the Kelvin sign (U+212A, which becomes \<open>k\<close>) only; \<open>ascii_lower\<close> gives it.  A
  name with any other code point has a lower-case form outside ASCII and is no key.
\<close>

definition ascii_lower :: "int \<Rightarrow> int option" where
  "ascii_lower c =
     (if 0x41 \<le> c \<and> c \<le> 0x5A then Some (c + 32)
      else if c < 128 then Some c
      else if c = 0x212A then Some 0x6B
      else None)"

fun lower_key :: "unicode \<Rightarrow> unicode option" where
  "lower_key [] = Some []"
| "lower_key (c # cs) =
     (case ascii_lower c of
        None \<Rightarrow> None
      | Some l \<Rightarrow> (case lower_key cs of None \<Rightarrow> None | Some ls \<Rightarrow> Some (l # ls)))"

definition standard_size :: "unicode \<Rightarrow> (int \<times> int) option" where
  "standard_size size_name =
     (case lower_key size_name of
        None \<Rightarrow> None
      | Some key \<Rightarrow> map_of (map (\<lambda>(k, dims). (code_points k, dims)) PASSPORT_SIZES) key)"

text \<open>
  The choice of the dimensions: \<open>if custom_width_mm and custom_height_mm\<close> takes the
  custom values when both are given and neither is zero; otherwise
  \<open>PASSPORT_SIZES.get(size.lower(), (51, 51))\<close>.
\<close>

definition photo_size_mm :: "unicode \<Rightarrow> int option \<Rightarrow> int option \<Rightarrow> int \<times> int" where
  "photo_size_mm size_name custom_width_mm custom_height_mm =
     (if truthy_int custom_width_mm \<and> truthy_int custom_height_mm
      then (the custom_width_mm, the custom_height_mm)
      else (case standard_size size_name of
              Some dims \<Rightarrow> dims
            | None \<Rightarrow> (51, 51)))"

text \<open>
  \<open>int(s, 16)\<close> on a slice of at most two characters: whitespace is dropped, one sign is
  allowed, and what remains must be hexadecimal digits, the decimal digits of any
  script among them.  (A prefix \<open>0x\<close> or an underscore needs a digit on either side, so
  none fits in two characters.)
\<close>

definition hex_value :: "int \<Rightarrow> nat option" where
  "hex_value c =
     (case py_decimal c of
        Some d \<Rightarrow> Some d
      | None \<Rightarrow>
          if 0x61 \<le> c \<and> c \<le> 0x66 then Some (nat (c - 0x61 + 10))
          else if 0x41 \<le> c \<and> c \<le> 0x46 then Some (nat (c - 0x41 + 10))
          else None)"

definition py_int16 :: "unicode \<Rightarrow> py_exception + int" where
  "py_int16 s =
     (let t = int_strip s;
          negative = (t \<noteq> [] \<and> hd t = 0x2D);
          body = (if t \<noteq> [] \<and> (hd t = 0x2D \<or> hd t = 0x2B) then tl t else t)
      in if body \<noteq> [] \<and> list_all (\<lambda>c. hex_value c \<noteq> None) body
         then (let v = int (foldl (\<lambda>acc c. 16 * acc + the (hex_value c)) 0 body)
               in Inr (if negative then - v else v))
         else Inl ValueError)"

text \<open>\<open>background_color.lstrip('#')\<close> and the three slices of two characters.\<close>

definition parse_background :: "unicode \<Rightarrow> py_exception + int \<times> int \<times> int" where
  "parse_background background_color =
     (let color = dropWhile (\<lambda>c. c = 0x23) background_color
      in case py_int16 (take 2 color) of
           Inl e \<Rightarrow> Inl e
         | Inr r \<Rightarrow>
             (case py_int16 (take 2 (drop 2 color)) of
                Inl e \<Rightarrow> Inl e
              | Inr g \<Rightarrow>
                  (case py_int16 (take 2 (drop 4 color)) of
                     Inl e \<Rightarrow> Inl e
                   | Inr b \<Rightarrow> Inr (r, g, b))))"

text \<open>
  The scaling of the foreground: its new width and height, from its size and the target
  size.  A float division by zero raises \<open>ZeroDivisionError\<close>.
\<close>

definition scaled_size ::
  "rounding \<Rightarrow> int \<times> int \<Rightarrow> int \<times> int \<Rightarrow> py_exception + int \<times> int" where
  "scaled_size fl fg target =
     (let (fg_width, fg_height) = fg;
          (target_width, target_height) = target;
          head_ratio = fl (75 / 100)
      in if fg_height = 0 \<or> target_height = 0 then Inl ZeroDivisionError
         else (let fg_aspect = fl (of_int fg_width / of_int fg_height);
                   target_aspect = fl (of_int target_width / of_int target_height)
               in if fg_aspect > target_aspect then
                    (let new_width = py_int_of_float (fl (of_int target_width * fl (9 / 10)))
                     in if fg_aspect = 0 then Inl ZeroDivisionError
                        else Inr (new_width,
                                  py_int_of_float (fl (of_int new_width / fg_aspect))))
                  else
                    (let new_height = py_int_of_float (fl (of_int target_height * head_ratio))
                     in Inr (py_int_of_float (fl (of_int new_height * fg_aspect)),
                             new_height))))"

text \<open>
  The photo that is saved: the canvas with its background, and where the scaled
  foreground is pasted.
\<close>

record passport_photo =
  canvas_width :: int
  canvas_height :: int
  canvas_color :: "int \<times> int \<times> int"
  pasted_width :: int
  pasted_height :: int
  x_offset :: int
  y_offset :: int

text \<open>
  \<open>create_passport_photo\<close>.  \<open>load\<close> stands for opening the image and, where rembg is
  installed, cutting out the foreground: it gives the size of the foreground or
  raises.  Pillow refuses to resize to a width or height below one pixel, and to
  create an image of negative size, with \<open>ValueError\<close>.
\<close>

definition create_passport_photo ::
  "rounding \<Rightarrow> (string \<Rightarrow> py_exception + int \<times> int) \<Rightarrow> string \<Rightarrow> unicode \<Rightarrow> unicode
     \<Rightarrow> int option \<Rightarrow> int option \<Rightarrow> py_exception + passport_photo" where
  "create_passport_photo fl load image_path size_name background_color
       custom_width_mm custom_height_mm =
     (let (width_mm, height_mm) = photo_size_mm size_name custom_width_mm custom_height_mm;
          target_width = mm_to_pixels fl width_mm;
          target_height = mm_to_pixels fl height_mm
      in case parse_background background_color of
           Inl e \<Rightarrow> Inl e
         | Inr rgb_color \<Rightarrow>
             (case load image_path of
                Inl e \<Rightarrow> Inl e
              | Inr fg \<Rightarrow>
                  (case scaled_size fl fg (target_width, target_height) of
                     Inl e \<Rightarrow> Inl e
                   | Inr (new_width, new_height) \<Rightarrow>
                       if new_width < 1 \<or> new_height < 1 then Inl ValueError
                       else if target_width < 0 \<or> target_height < 0 then Inl ValueError
                       else Inr \<lparr> canvas_width = target_width,
                                  canvas_height = target_height,
                                  canvas_color = rgb_color,
                                  pasted_width = new_width,
                                  pasted_height = new_height,
                                  x_offset = (target_width - new_width) div 2,
                                  y_offset = target_height - new_height
                                    - py_int_of_float
                                        (fl (of_int target_height * fl (5 / 100))) \<rparr>)))"


section \<open>Concrete inputs for the worked examples\<close>

text \<open>
  A one-page PDF on the boundary: its text is 100 letters between two blanks and a
  no-break space (U+00A0) with a line feed, all of which are stripped, and it has one
  image.  It is neither scanned nor text.
\<close>

definition boundary_page :: fitz_page where
  "boundary_page =
     \<lparr> get_text = [0x20, 0x20] @ replicate 100 0x61 @ [0xA0, 0x0A], get_images = [7] \<rparr>"

text \<open>
  A one-page text PDF (150 characters, no image), and an environment in which pdf2docx
  raises on it while every other converter body completes.
\<close>

definition text_page :: fitz_page where
  "text_page = \<lparr> get_text = replicate 150 0x78, get_images = [] \<rparr>"

definition pdf2docx_fails :: convert_env where
  "pdf2docx_fails =
     \<lparr> env_open = (\<lambda>path. Inr [Inr text_page]),
       env_raises = (\<lambda>body pdf_path out. if body = Pdf2docxBody then Some RuntimeError else None) \<rparr>"

text \<open>
  A page with the single span \<open>Hello world\<close> set in Times at 18 points in red, on which a
  search for \<open>Hello\<close> finds one rectangle; and a page with two lines that both hold
  \<open>Hello\<close>, the first in Times at 18 points, the second in Courier at 9 points.
\<close>

definition times_span :: text_span where
  "times_span =
     \<lparr> span_text = ''Hello world'', span_font = ''Times-Roman'', span_size = 18,
       span_color = 16711680 \<rparr>"

definition courier_span :: text_span where
  "courier_span =
     \<lparr> span_text = ''Hello again'', span_font = ''Courier'', span_size = 9,
       span_color = 255 \<rparr>"

definition hello_rect :: fitz_rect where
  "hello_rect = \<lparr> x0 = 72, y0 = 90, x1 = 110, y1 = 108 \<rparr>"

definition hello_rect2 :: fitz_rect where
  "hello_rect2 = \<lparr> x0 = 72, y0 = 120, x1 = 91, y1 = 129 \<rparr>"

definition hello_page :: recorded_page where
  "hello_page =
     \<lparr> page_blocks = [TextBlock [[times_span]]],
       page_hits = (\<lambda>needle. if needle = ''Hello'' then [hello_rect] else []),
       page_calls = [] \<rparr>"

definition two_line_page :: recorded_page where
  "two_line_page =
     \<lparr> page_blocks = [TextBlock [[times_span], [courier_span]]],
       page_hits = (\<lambda>needle. if needle = ''Hello'' then [hello_rect, hello_rect2] else []),
       page_calls = [] \<rparr>"

text \<open>Three uploads: a PDF with an upper-case extension, a JPEG, and one without a name.\<close>

definition report_upload :: upload_file where
  "report_upload = \<lparr> filename = Some ''Annual Report.PDF'', content_length = 2048 \<rparr>"

definition photo_upload :: upload_file where
  "photo_upload = \<lparr> filename = Some ''me.jpeg'', content_length = 4096 \<rparr>"

definition nameless_upload :: upload_file where
  "nameless_upload = \<lparr> filename = None, content_length = 1 \<rparr>"

text \<open>
  A split request: the upload \<open>book.pdf\<close>, a reader that finds three pages (numbered
  1, 2, 3) in it, a PDF writer whose files are as many bytes long as they have pages,
  and the clock readings of the request.
\<close>

definition book_upload :: upload_file where
  "book_upload = \<lparr> filename = Some ''book.pdf'', content_length = 5000 \<rparr>"

definition three_pages :: "nat pdf_reader" where
  "three_pages = (\<lambda>path. Inr [1, 2, 3])"

definition split_clock :: split_readings where
  "split_clock =
     \<lparr> start_time = 100, save_time = 100, save_uuid = ''ab12cd34'',
       name_time = 101, name_uuid = [], end_time = 102,
       entry_time = (\<lambda>k. 102) \<rparr>"

text \<open>
  A request to \<open>/pdf/to-word\<close>: the clock readings; a conversion that leaves an output
  file of 777 bytes on disk; an environment in which the PDF cannot be opened and every
  converter raises; and a disk on which the input file is held (as by a library that
  still has it open) so that \<open>os.remove\<close> raises \<open>PermissionError\<close>.
\<close>

definition word_clock :: request_readings where
  "word_clock =
     \<lparr> start_time = 100, save_time = 100, save_uuid = ''ab12cd34'',
       name_time = 101, name_uuid = ''ffee0011'', end_time = 102 \<rparr>"

definition writing_disk :: "string \<Rightarrow> string \<Rightarrow> filesystem \<Rightarrow> filesystem" where
  "writing_disk input_path output_path fs =
     fs_write fs (Path output_path)
       \<lparr> st_size = 777, st_mtime = 101, stat_error = None, remove_error = None \<rparr>"





text \<open>Clock readings of a split request that is served within one second.\<close>

definition same_second_clock :: split_readings where
  "same_second_clock =
     \<lparr> start_time = 100, save_time = 100, save_uuid = ''ab12cd34'',
       name_time = 1012 / 10, name_uuid = [], end_time = 102,
       entry_time = (\<lambda>k. 1015 / 10) \<rparr>"

text \<open>
  Two documents for the analysis: one of eleven pages whose last page cannot be loaded
  (the analysis never visits it), and a file that \<open>fitz.open\<close> refuses.
\<close>

definition eleven_pages :: fitz_open where
  "eleven_pages = (\<lambda>path. Inr (replicate 10 (Inr text_page) @ [Inl RuntimeError]))"

definition not_a_pdf :: fitz_open where
  "not_a_pdf = (\<lambda>path. Inl FileDataError)"


section \<open>Facts about the file system\<close>

lemma map_of_filter_key:
  "map_of (filter (\<lambda>(k, _). k \<noteq> a) fs) b = (if b = a then None else map_of fs b)"
  by (induction fs) auto

lemma map_of_write:
  "map_of (fs_write fs key f) q = (if q = key then Some f else map_of fs q)"
  by (simp add: fs_write_def map_of_filter_key)

lemma map_of_delete:
  "map_of (fs_delete fs key) q = (if q = key then None else map_of fs q)"
  by (simp add: fs_delete_def map_of_filter_key)

lemma os_stat_fresh:
  "os_stat (fs_write fs (Path p)
      \<lparr> st_size = n, st_mtime = t, stat_error = None, remove_error = r \<rparr>) p =
     Inr \<lparr> st_size = n, st_mtime = t, stat_error = None, remove_error = r \<rparr>"
  by (simp add: os_stat_def stat_key_def map_of_write)

lemma cleanup_file_lookup:
  "map_of (cleanup_file fs p) q =
     (if q = Path p \<and> removable (map_of fs (Path p)) then None else map_of fs q)"
  by (auto simp: cleanup_file_def os_path_exists_def os_stat_def stat_key_def os_remove_def
      remove_key_def map_of_delete removable_def split: option.splits)


lemma cleanup_files_lookup:
  "map_of (cleanup_files fs ps) q =
     (if q \<in> Path ` set ps \<and> removable (map_of fs q) then None else map_of fs q)"
  by (induction ps arbitrary: fs) (auto simp: cleanup_file_lookup removable_def)

lemma pdf_to_word_endpoint_valid:
  assumes "validate_pdf_file file = Inr ()"
  shows "pdf_to_word_endpoint cfg env disk clock fs file mode =
     (let saved = save_upload_file cfg fs file ''pdf'' (save_time clock) (save_uuid clock);
          block = to_word_block cfg env disk clock (fst saved) file mode (snd saved)
      in (cleanup_file (fst block) (snd saved), snd block))"
  using assms
  by (simp add: pdf_to_word_endpoint_def try_finally_cleanup_def Let_def split: prod.split)













section \<open>Properties of the PDF analysis\<close>

lemma scan_pages_read:
  "list_all is_read entries \<Longrightarrow>
   scan_pages entries (a, b) =
     Inr (a + sampled_text_length (pages_of entries), b + sampled_image_count (pages_of entries))"
proof (induction entries arbitrary: a b)
  case Nil
  then show ?case
    by (simp add: pages_of_def sampled_text_length_def sampled_image_count_def map_filter_simps)
next
  case (Cons entry entries)
  then show ?case
    by (cases entry)
      (simp_all add: is_read_def pages_of_def sampled_text_length_def
        sampled_image_count_def map_filter_simps)
qed

lemma scan_pages_unread:
  "\<not> list_all is_read entries \<Longrightarrow> \<exists>e. scan_pages entries (a, b) = Inl e"
proof (induction entries arbitrary: a b)
  case Nil
  then show ?case by simp
next
  case (Cons entry entries)
  then show ?case
    by (cases entry) (simp_all add: is_read_def)
qed

lemma analyze_pdf_type_readable:
  assumes "pages_read open_pdf pdf_path = Some pages"
  shows "analyze_pdf_type open_pdf pdf_path =
     (let L = sampled_text_length pages; I = sampled_image_count pages;
          n = document_length open_pdf pdf_path
      in \<lparr> is_scanned = (L < 100 \<and> I > 0),
           is_complex = (L > 100 \<and> I \<ge> n),
           has_text = (L > 100),
           image_count = I, text_length = L, page_count = n,
           recommendation =
             (if L < 100 \<and> I > 0 then ''ocr''
              else if L > 100 \<and> I \<ge> n then ''hybrid''
              else if L > 100 \<and> \<not> I \<ge> n then ''text''
              else ''image'') \<rparr>)"
proof (cases "open_pdf pdf_path")
  case (Inl e)
  with assms show ?thesis
    by (simp add: pages_read_def)
next
  case (Inr pdf_doc)
  with assms have all: "list_all is_read (sampled_pages pdf_doc)"
    and pages: "pages = pages_of (sampled_pages pdf_doc)"
    by (auto simp: pages_read_def split: if_splits)
  have "scan_pages (take (min 10 (length pdf_doc)) pdf_doc) (0, 0) =
      Inr (sampled_text_length pages, sampled_image_count pages)"
    using scan_pages_read [OF all, of 0 0] by (simp add: pages sampled_pages_def)
  then show ?thesis
    using Inr by (simp add: analyze_pdf_type_def document_length_def Let_def)
qed

lemma analyze_pdf_type_unreadable:
  assumes "pages_read open_pdf pdf_path = None"
  shows "analyze_pdf_type open_pdf pdf_path = analysis_on_error"
proof (cases "open_pdf pdf_path")
  case (Inl e)
  then show ?thesis
    by (simp add: analyze_pdf_type_def)
next
  case (Inr pdf_doc)
  with assms have "\<not> list_all is_read (sampled_pages pdf_doc)"
    by (auto simp: pages_read_def split: if_splits)
  then obtain e where "scan_pages (take (min 10 (length pdf_doc)) pdf_doc) (0, 0) = Inl e"
    using scan_pages_unread [of "sampled_pages pdf_doc" 0 0] by (auto simp: sampled_pages_def)
  then show ?thesis
    using Inr by (simp add: analyze_pdf_type_def Let_def)
qed

lemma eleven_pages_read:
  "pages_read eleven_pages pdf_path = Some (replicate 10 text_page)"
  by (simp add: pages_read_def eleven_pages_def sampled_pages_def is_read_def pages_of_def
      map_filter_def list_all_iff)

lemma text_page_length:
  "length (py_strip (get_text text_page)) = 150"
proof -
  have "\<not> py_isspace 0x78"
    by (simp add: py_isspace_def unicode_whitespace_def)
  then have "py_strip (replicate 150 0x78) = replicate 150 0x78"
    by (simp add: py_strip_def dropWhile_replicate)
  then show ?thesis
    by (simp add: text_page_def)
qed

lemma boundary_page_length:
  "length (py_strip (get_text boundary_page)) = 100"
proof -
  have a: "\<not> py_isspace 0x61"
    by (simp add: py_isspace_def unicode_whitespace_def)
  have s: "py_isspace 0x20" "py_isspace 0xA0" "py_isspace 0x0A"
    by (simp_all add: py_isspace_def unicode_whitespace_def)
  have front: "dropWhile py_isspace ([0x20, 0x20] @ replicate 100 0x61 @ [0xA0, 0x0A]) =
      replicate 100 0x61 @ [0xA0, 0x0A]"
    using a s by (simp add: dropWhile_append3)
  have rear: "dropWhile py_isspace (rev (replicate 100 0x61 @ [0xA0, 0x0A])) = replicate 100 0x61"
    using a s by (simp add: dropWhile_append3)
  show ?thesis
    by (simp only: boundary_page_def fitz_page.simps py_strip_def front rear)
      simp
qed

text \<open>
  Claim C1, as amended.  For a PDF that \<open>fitz.open\<close> returns and whose first
  \<open>min(10, page_count)\<close> pages are read, let \<open>L\<close> be the total length of the stripped texts
  and \<open>I\<close> the total number of images of those pages, and \<open>n\<close> the page count.  The
  recommendation is \<open>ocr\<close> exactly when \<open>L < 100\<close> and \<open>I > 0\<close>; otherwise \<open>hybrid\<close>
  exactly when \<open>L > 100\<close> and \<open>I \<ge> n\<close>; otherwise \<open>text\<close> exactly when \<open>L > 100\<close> and
  \<open>I < n\<close>; and \<open>image\<close> in every remaining case, the boundary \<open>L = 100\<close> included.  The
  returned fields satisfy \<open>has_text = (L > 100)\<close>, \<open>is_scanned = (L < 100 \<and> I > 0)\<close> and
  \<open>is_complex = (has_text \<and> I \<ge> n)\<close>.  For a file that cannot be opened, or with a page
  among the first ten that cannot be read, the analysis returns its fixed fallback:
  recommendation \<open>image\<close>, \<open>is_complex\<close> true, every other flag false and every count
  zero.
\<close>

theorem analyze_pdf_type_thresholds:
  "(\<forall>pages. pages_read open_pdf pdf_path = Some pages \<longrightarrow>
      (let r = analyze_pdf_type open_pdf pdf_path;
           L = sampled_text_length pages;
           I = sampled_image_count pages;
           n = document_length open_pdf pdf_path
       in recommendation r =
            (if L < 100 \<and> I > 0 then ''ocr''
             else if L > 100 \<and> I \<ge> n then ''hybrid''
             else if L > 100 \<and> I < n then ''text''
             else ''image'')
        \<and> (recommendation r = ''ocr'') = (L < 100 \<and> I > 0)
        \<and> (recommendation r = ''hybrid'') = (L > 100 \<and> I \<ge> n)
        \<and> (recommendation r = ''text'') = (L > 100 \<and> I < n)
        \<and> (recommendation r = ''image'') = (L = 100 \<or> (L < 100 \<and> I = 0))
        \<and> has_text r = (L > 100)
        \<and> is_scanned r = (L < 100 \<and> I > 0)
        \<and> is_complex r = (has_text r \<and> I \<ge> n)
        \<and> text_length r = L \<and> image_count r = I \<and> page_count r = n))
   \<and> (pages_read open_pdf pdf_path = None \<longrightarrow>
        analyze_pdf_type open_pdf pdf_path =
          \<lparr> is_scanned = False, is_complex = True, has_text = False,
            image_count = 0, text_length = 0, page_count = 0,
            recommendation = ''image'' \<rparr>)"
proof (intro conjI allI impI)
  fix pages
  assume read: "pages_read open_pdf pdf_path = Some pages"
  have "L < 100 \<or> L = 100 \<or> L > 100" for L :: nat
    by arith
  moreover note analyze_pdf_type_readable [OF read]
  ultimately show "let r = analyze_pdf_type open_pdf pdf_path;
           L = sampled_text_length pages;
           I = sampled_image_count pages;
           n = document_length open_pdf pdf_path
       in recommendation r =
            (if L < 100 \<and> I > 0 then ''ocr''
             else if L > 100 \<and> I \<ge> n then ''hybrid''
             else if L > 100 \<and> I < n then ''text''
             else ''image'')
        \<and> (recommendation r = ''ocr'') = (L < 100 \<and> I > 0)
        \<and> (recommendation r = ''hybrid'') = (L > 100 \<and> I \<ge> n)
        \<and> (recommendation r = ''text'') = (L > 100 \<and> I < n)
        \<and> (recommendation r = ''image'') = (L = 100 \<or> (L < 100 \<and> I = 0))
        \<and> has_text r = (L > 100)
        \<and> is_scanned r = (L < 100 \<and> I > 0)
        \<and> is_complex r = (has_text r \<and> I \<ge> n)
        \<and> text_length r = L \<and> image_count r = I \<and> page_count r = n"
    by (auto simp: Let_def not_le)
next
  assume "pages_read open_pdf pdf_path = None"
  then show "analyze_pdf_type open_pdf pdf_path =
      \<lparr> is_scanned = False, is_complex = True, has_text = False,
        image_count = 0, text_length = 0, page_count = 0,
        recommendation = ''image'' \<rparr>"
    by (simp add: analyze_pdf_type_unreadable analysis_on_error_def)
qed

theorem analyze_pdf_type_thresholds_witness:
  "pages_read (\<lambda>path. Inr [Inr boundary_page]) ''scan.pdf'' = Some [boundary_page]
   \<and> sampled_text_length [boundary_page] = 100
   \<and> sampled_image_count [boundary_page] = 1
   \<and> recommendation (analyze_pdf_type (\<lambda>path. Inr [Inr boundary_page]) ''scan.pdf'') = ''image''
   \<and> \<not> has_text (analyze_pdf_type (\<lambda>path. Inr [Inr boundary_page]) ''scan.pdf'')
   \<and> \<not> is_scanned (analyze_pdf_type (\<lambda>path. Inr [Inr boundary_page]) ''scan.pdf'')
   \<and> pages_read eleven_pages ''long.pdf'' = Some (replicate 10 text_page)
   \<and> recommendation (analyze_pdf_type eleven_pages ''long.pdf'') = ''text''
   \<and> page_count (analyze_pdf_type eleven_pages ''long.pdf'') = 11
   \<and> pages_read (\<lambda>path. Inr [Inr text_page, Inl RuntimeError]) ''torn.pdf'' = None
   \<and> recommendation (analyze_pdf_type (\<lambda>path. Inr [Inr text_page, Inl RuntimeError]) ''torn.pdf'')
       = ''image''"
proof -
  have r1: "pages_read (\<lambda>path. Inr [Inr boundary_page]) ''scan.pdf'' = Some [boundary_page]"
    by (simp add: pages_read_def sampled_pages_def is_read_def pages_of_def map_filter_simps)
  have L1: "sampled_text_length [boundary_page] = 100"
    by (simp add: sampled_text_length_def boundary_page_length)
  have I1: "sampled_image_count [boundary_page] = 1"
    by (simp add: sampled_image_count_def boundary_page_def)
  have n1: "document_length (\<lambda>path. Inr [Inr boundary_page]) ''scan.pdf'' = 1"
    by (simp add: document_length_def)
  have L2: "sampled_text_length (replicate 10 text_page) = 1500"
    by (simp add: sampled_text_length_def text_page_length map_replicate_const sum_list_replicate)
  have I2: "sampled_image_count (replicate 10 text_page) = 0"
    by (simp add: sampled_image_count_def text_page_def map_replicate_const sum_list_replicate)
  have n2: "document_length eleven_pages ''long.pdf'' = 11"
    by (simp add: document_length_def eleven_pages_def)
  have r3: "pages_read (\<lambda>path. Inr [Inr text_page, Inl RuntimeError]) ''torn.pdf'' = None"
    by (simp add: pages_read_def sampled_pages_def is_read_def)
  from analyze_pdf_type_thresholds
      [of "\<lambda>path. Inr [Inr boundary_page]" "''scan.pdf''", THEN conjunct1, rule_format, OF r1]
  have a: "recommendation (analyze_pdf_type (\<lambda>path. Inr [Inr boundary_page]) ''scan.pdf'') = ''image''
      \<and> \<not> has_text (analyze_pdf_type (\<lambda>path. Inr [Inr boundary_page]) ''scan.pdf'')
      \<and> \<not> is_scanned (analyze_pdf_type (\<lambda>path. Inr [Inr boundary_page]) ''scan.pdf'')"
    by (simp add: L1 I1 n1 Let_def)
  from analyze_pdf_type_thresholds
      [of eleven_pages "''long.pdf''", THEN conjunct1, rule_format, OF eleven_pages_read]
  have b: "recommendation (analyze_pdf_type eleven_pages ''long.pdf'') = ''text''
      \<and> page_count (analyze_pdf_type eleven_pages ''long.pdf'') = 11"
    by (simp add: L2 I2 n2 Let_def)
  from analyze_pdf_type_thresholds
      [of "\<lambda>path. Inr [Inr text_page, Inl RuntimeError]" "''torn.pdf''", THEN conjunct2,
        rule_format, OF r3]
  have c: "recommendation (analyze_pdf_type (\<lambda>path. Inr [Inr text_page, Inl RuntimeError]) ''torn.pdf'')
      = ''image''"
    by simp
  show ?thesis
    using r1 L1 I1 a b c r3 eleven_pages_read [of "''long.pdf''"] by simp
qed

text \<open>
  The claim as first stated does not hold for every PDF: on a file that \<open>fitz.open\<close>
  refuses the analysis answers with \<open>is_complex\<close> true and \<open>has_text\<close> false, so
  \<open>is_complex\<close> is not \<open>has_text \<and> I \<ge> page_count\<close>, whatever \<open>I\<close> is.
\<close>

theorem analyze_pdf_type_fallback_counterexample:
  "is_complex (analyze_pdf_type not_a_pdf ''upload.pdf'')
   \<and> \<not> has_text (analyze_pdf_type not_a_pdf ''upload.pdf'')
   \<and> is_complex (analyze_pdf_type not_a_pdf ''upload.pdf'') \<noteq>
       (has_text (analyze_pdf_type not_a_pdf ''upload.pdf'')
        \<and> image_count (analyze_pdf_type not_a_pdf ''upload.pdf'')
            \<ge> page_count (analyze_pdf_type not_a_pdf ''upload.pdf''))"
  by (simp add: analyze_pdf_type_def not_a_pdf_def analysis_on_error_def)


section \<open>Properties of the PDF to Word dispatch\<close>

lemma docx_output_path_Some [simp]: "docx_output_path pdf_path (Some out) = Inr out"
  by (simp add: docx_output_path_def)

lemma run_body_cases:
  "run_body env body pdf_path out = Inr out \<or> (\<exists>e. run_body env body pdf_path out = Inl e)"
  by (simp add: run_body_def split: option.split)

lemma run_body_returns:
  "(run_body env body pdf_path out = Inr p) =
     (env_raises env body pdf_path out = None \<and> p = out)"
  by (auto simp: run_body_def split: option.splits)

lemma run_conversion_returns:
  "(run_conversion env c pdf_path out = Inr p) =
     (env_raises env (last_body env c pdf_path out) pdf_path out = None \<and> p = out)"
  by (cases c)
    (auto simp: last_body_def pdf_to_word_advanced_def pdf_to_word_with_ocr_def
      pdf_to_word_hybrid_mode_def pdf_to_word_image_mode_def run_body_returns Let_def
      split: option.splits)

lemma pdf_to_word_is_documented:
  assumes "docx_output_path pdf_path output_path = Inr out"
  shows "pdf_to_word env pdf_path output_path mode =
     run_conversion env
       (documented_conversion mode (recommendation (analyze_pdf_type (env_open env) pdf_path)))
       pdf_path out"
  using assms
  by (simp add: pdf_to_word_def documented_conversion_def pdf2docx_or_advanced_def
      run_body_def Let_def split: option.splits)

lemma pdf_to_word_no_output_path:
  "docx_output_path pdf_path output_path = Inl e \<Longrightarrow>
     pdf_to_word env pdf_path output_path mode = Inl e"
  by (simp add: pdf_to_word_def)

text \<open>
  Claim C2.  For every input path and mode string, \<open>pdf_to_word\<close> runs the conversion
  the documentation names: mode \<open>auto\<close> selects by the recommendation of
  \<open>analyze_pdf_type\<close> (\<open>text\<close>: pdf2docx, falling back to \<open>pdf_to_word_advanced\<close> when
  it raises; \<open>ocr\<close>: \<open>pdf_to_word_with_ocr\<close>; \<open>hybrid\<close>: \<open>pdf_to_word_hybrid_mode\<close>;
  anything else: \<open>pdf_to_word_image_mode\<close>), the modes \<open>hybrid\<close>, \<open>image\<close>, \<open>ocr\<close> and
  \<open>text\<close> select their own function, and any other mode is the hybrid mode.  The
  value returned is the output path, that is \<open>output_path\<close> when one is given and the
  input path with its suffix replaced by \<open>.docx\<close> otherwise; and a value is returned
  exactly when the body that the selected conversion runs last does not raise.
\<close>

theorem pdf_to_word_dispatch:
  assumes "docx_output_path pdf_path output_path = Inr out"
  shows "pdf_to_word env pdf_path output_path mode =
           run_conversion env
             (documented_conversion mode
                (recommendation (analyze_pdf_type (env_open env) pdf_path)))
             pdf_path out
       \<and> (case pdf_to_word env pdf_path output_path mode of
             Inr p \<Rightarrow> p = out
           | Inl e \<Rightarrow> True)
       \<and> (pdf_to_word env pdf_path output_path mode = Inr out) =
           (env_raises env
              (last_body env
                 (documented_conversion mode
                    (recommendation (analyze_pdf_type (env_open env) pdf_path)))
                 pdf_path out)
              pdf_path out = None)
       \<and> (case output_path of
             Some p \<Rightarrow> out = p
           | None \<Rightarrow> with_suffix_str pdf_path ''.docx'' = Inr out)"
proof -
  let ?c = "documented_conversion mode (recommendation (analyze_pdf_type (env_open env) pdf_path))"
  have eq: "pdf_to_word env pdf_path output_path mode = run_conversion env ?c pdf_path out"
    by (rule pdf_to_word_is_documented [OF assms])
  have val: "case pdf_to_word env pdf_path output_path mode of Inr p \<Rightarrow> p = out | Inl e \<Rightarrow> True"
    unfolding eq using run_conversion_returns [of env ?c pdf_path out]
    by (cases "run_conversion env ?c pdf_path out") auto
  have ret: "(pdf_to_word env pdf_path output_path mode = Inr out) =
      (env_raises env (last_body env ?c pdf_path out) pdf_path out = None)"
    unfolding eq by (simp add: run_conversion_returns)
  have given: "case output_path of
      Some p \<Rightarrow> out = p
    | None \<Rightarrow> with_suffix_str pdf_path ''.docx'' = Inr out"
    using assms by (cases output_path) (simp_all add: docx_output_path_def)
  from eq val ret given show ?thesis
    by blast
qed

text \<open>
  In mode \<open>auto\<close> on a text PDF where pdf2docx raises, the advanced converter produces
  the result, at the input path with the suffix \<open>.docx\<close>.
\<close>

theorem pdf_to_word_dispatch_witness:
  "docx_output_path ''uploads/report.pdf'' None = Inr ''uploads/report.docx''
   \<and> recommendation (analyze_pdf_type (env_open pdf2docx_fails) ''uploads/report.pdf'') = ''text''
   \<and> pdf_to_word pdf2docx_fails ''uploads/report.pdf'' None ''auto'' = Inr ''uploads/report.docx''
   \<and> last_body pdf2docx_fails Pdf2docx_with_advanced_fallback
         ''uploads/report.pdf'' ''uploads/report.docx'' = AdvancedBody"
proof -
  have out: "docx_output_path ''uploads/report.pdf'' None = Inr ''uploads/report.docx''"
    by (simp add: docx_output_path_def with_suffix_str_def path_with_suffix_def Path_def
        path_name_def path_suffix_def py_rfind_dot_def path_str_def)
  have read: "pages_read (env_open pdf2docx_fails) ''uploads/report.pdf'' = Some [text_page]"
    by (simp add: pages_read_def pdf2docx_fails_def sampled_pages_def is_read_def pages_of_def
        map_filter_simps)
  have "sampled_text_length [text_page] = 150" "sampled_image_count [text_page] = 0"
    "document_length (env_open pdf2docx_fails) ''uploads/report.pdf'' = 1"
    by (simp_all add: sampled_text_length_def sampled_image_count_def text_page_length
        document_length_def pdf2docx_fails_def)
      (simp add: text_page_def)
  with analyze_pdf_type_readable [OF read]
  have rec: "recommendation (analyze_pdf_type (env_open pdf2docx_fails) ''uploads/report.pdf'') = ''text''"
    by (simp add: pdf2docx_fails_def Let_def)
  have last: "last_body pdf2docx_fails Pdf2docx_with_advanced_fallback
      ''uploads/report.pdf'' ''uploads/report.docx'' = AdvancedBody"
    by (simp add: last_body_def pdf2docx_fails_def)
  have completes: "env_raises pdf2docx_fails AdvancedBody
      ''uploads/report.pdf'' ''uploads/report.docx'' = None"
    by (simp add: pdf2docx_fails_def)
  have doc: "documented_conversion ''auto'' ''text'' = Pdf2docx_with_advanced_fallback"
    by (simp add: documented_conversion_def)
  from pdf_to_word_dispatch [OF out, of pdf2docx_fails "''auto''"]
  have "(pdf_to_word pdf2docx_fails ''uploads/report.pdf'' None ''auto'' = Inr ''uploads/report.docx'') =
      (env_raises pdf2docx_fails
         (last_body pdf2docx_fails
            (documented_conversion ''auto''
               (recommendation (analyze_pdf_type (env_open pdf2docx_fails) ''uploads/report.pdf'')))
            ''uploads/report.pdf'' ''uploads/report.docx'')
         ''uploads/report.pdf'' ''uploads/report.docx'' = None)"
    by (elim conjE)
  then have "pdf_to_word pdf2docx_fails ''uploads/report.pdf'' None ''auto'' = Inr ''uploads/report.docx''"
    by (simp only: rec doc last completes)
  with out rec last show ?thesis
    by simp
qed


section \<open>Properties of the PDF editor\<close>








text \<open>
  No \<open>insert_text\<close> call of \<open>replace_text\<close> passes a font name: the name read from the
  span is dropped, whatever the page holds.  The point of insertion is the lower-left
  corner of the occurrence, and the text is the new text.
\<close>

lemma replacement_args_no_font_name:
  "arg_fontname (replacement_args api page old_text new_text inst) = None
   \<and> arg_point (replacement_args api page old_text new_text inst) = (x0 inst, y1 inst)
   \<and> arg_text (replacement_args api page old_text new_text inst) = new_text"
  by (simp add: replacement_args_def Let_def split: prod.split)

text \<open>
  Claim C3, at a page whose only span is set in Times at 18 points in red: the
  occurrence is redacted and the new text is inserted at the lower-left corner of its
  box with the size and the colour of the span, and the count is returned; but the
  call carries no font name, so the text is set in the default font and not in Times.
\<close>

theorem replace_text_drops_font_name:
  "replace_text recording_api [hello_page] ''Hello'' ''Bye'' None =
     Inr ([hello_page\<lparr> page_calls :=
             [Add_redact_annot hello_rect None,
              Apply_redactions,
              Insert_text \<lparr> arg_point = (72, 108), arg_text = ''Bye'', arg_fontname = None,
                            arg_fontsize = 18, arg_color = (1, 0, 0) \<rparr>] \<rparr>], 1)
   \<and> span_font times_span = ''Times-Roman''"
  by (simp add: replace_text_def pages_or_all_def fitz_getitem_def recording_api_def
      hello_page_def replacement_args_def span_format_def times_span_def hello_rect_def
      Let_def)

text \<open>
  The formatting is not taken from the span of the occurrence either: on a page with two
  lines that hold the old text, the first occurrence (in Times at 18 points) is
  replaced with the size and colour of the second line (Courier at 9 points, blue).
\<close>

lemma replacement_args_from_last_line:
  "replacement_args recording_api two_line_page ''Hello'' ''Bye'' hello_rect =
     \<lparr> arg_point = (72, 108), arg_text = ''Bye'', arg_fontname = None,
       arg_fontsize = 9, arg_color = (0, 0, 1) \<rparr>"
  by (simp add: replacement_args_def recording_api_def two_line_page_def span_format_def
      times_span_def courier_span_def hello_rect_def Let_def)





section \<open>Properties of the upload validators\<close>

lemma validate_pdf_file_cases:
  "validate_pdf_file file =
     (if no_filename file then Inl (HTTPException 400 ''No filename provided'')
      else if get_file_extension (filename_or file []) \<noteq> ''.pdf''
      then Inl (HTTPException 400 ''File must be a PDF'')
      else Inr ())"
  by (auto simp: validate_pdf_file_def no_filename_def filename_or_def Let_def
      split: option.splits)

lemma validate_image_file_cases:
  "validate_image_file file =
     (if no_filename file then Inl (HTTPException 400 ''No filename provided'')
      else if get_file_extension (filename_or file []) \<notin> set valid_extensions
      then Inl (HTTPException 400
             (''Invalid image format. Supported: '' @ py_join '', '' valid_extensions))
      else Inr ())"
  by (auto simp: validate_image_file_def no_filename_def filename_or_def Let_def
      split: option.splits)

text \<open>
  Claim C6.  \<open>validate_pdf_file\<close> raises an \<open>HTTPException\<close> with status code 400 if and
  only if the file name of the upload is missing or its extension, lower-cased, is not
  \<open>.pdf\<close>; \<open>validate_image_file\<close> raises an \<open>HTTPException\<close> with status code 400 if
  and only if the file name is missing or its lower-cased extension is not one of
  \<open>.png\<close>, \<open>.jpg\<close>, \<open>.jpeg\<close>, \<open>.webp\<close>, \<open>.gif\<close>, \<open>.bmp\<close>, \<open>.tiff\<close>.  Neither raises
  anything else, and on a valid upload both return normally; they compute a result
  from the upload and change nothing.
\<close>

theorem validators_raise_400_exactly:
  "((\<exists>detail. validate_pdf_file file = Inl (HTTPException 400 detail)) =
      (no_filename file \<or> py_lower (path_suffix (Path (filename_or file []))) \<noteq> ''.pdf''))
   \<and> ((validate_pdf_file file = Inr ()) =
      (\<not> no_filename file \<and> py_lower (path_suffix (Path (filename_or file []))) = ''.pdf''))
   \<and> ((\<exists>detail. validate_image_file file = Inl (HTTPException 400 detail)) =
      (no_filename file \<or>
       py_lower (path_suffix (Path (filename_or file []))) \<notin>
         {''.png'', ''.jpg'', ''.jpeg'', ''.webp'', ''.gif'', ''.bmp'', ''.tiff''}))
   \<and> ((validate_image_file file = Inr ()) =
      (\<not> no_filename file \<and>
       py_lower (path_suffix (Path (filename_or file []))) \<in>
         {''.png'', ''.jpg'', ''.jpeg'', ''.webp'', ''.gif'', ''.bmp'', ''.tiff''}))
   \<and> (case validate_pdf_file file of
         Inl e \<Rightarrow> \<exists>detail. e = HTTPException 400 detail
       | Inr u \<Rightarrow> True)
   \<and> (case validate_image_file file of
         Inl e \<Rightarrow> \<exists>detail. e = HTTPException 400 detail
       | Inr u \<Rightarrow> True)"
proof -
  have exts: "set valid_extensions =
      {''.png'', ''.jpg'', ''.jpeg'', ''.webp'', ''.gif'', ''.bmp'', ''.tiff''}"
    by (simp add: valid_extensions_def)
  show ?thesis
    unfolding validate_pdf_file_cases validate_image_file_cases exts [symmetric]
      get_file_extension_def
    by simp
qed

text \<open>
  \<open>Annual Report.PDF\<close> is a valid PDF upload and no image; \<open>me.jpeg\<close> is a valid image
  and no PDF; an upload without a name is refused by both.
\<close>

theorem validators_raise_400_exactly_witness:
  "validate_pdf_file report_upload = Inr ()
   \<and> validate_image_file photo_upload = Inr ()
   \<and> (\<exists>detail. validate_pdf_file photo_upload = Inl (HTTPException 400 detail))
   \<and> (\<exists>detail. validate_image_file nameless_upload = Inl (HTTPException 400 detail))"
proof -
  have report: "py_lower (path_suffix (Path (filename_or report_upload []))) = ''.pdf''"
    "\<not> no_filename report_upload"
    by (simp_all add: report_upload_def filename_or_def no_filename_def Path_def
        path_suffix_def path_name_def py_rfind_dot_def py_lower_def py_lower_char_def)
  have photo: "py_lower (path_suffix (Path (filename_or photo_upload []))) = ''.jpeg''"
    "\<not> no_filename photo_upload"
    by (simp_all add: photo_upload_def filename_or_def no_filename_def Path_def
        path_suffix_def path_name_def py_rfind_dot_def py_lower_def py_lower_char_def)
  have nameless: "no_filename nameless_upload"
    by (simp add: nameless_upload_def no_filename_def)
  from validators_raise_400_exactly [of report_upload] report
  have 1: "validate_pdf_file report_upload = Inr ()"
    by simp
  from validators_raise_400_exactly [of photo_upload] photo
  have 2: "validate_image_file photo_upload = Inr ()"
    and 3: "\<exists>detail. validate_pdf_file photo_upload = Inl (HTTPException 400 detail)"
    by simp_all
  from validators_raise_400_exactly [of nameless_upload] nameless
  have 4: "\<exists>detail. validate_image_file nameless_upload = Inl (HTTPException 400 detail)"
    by simp
  from 1 2 3 4 show ?thesis
    by simp
qed


section \<open>Properties of the split\<close>

lemma add_pages_in_range:
  "\<forall>i \<in> set idxs. 0 \<le> i \<and> i < int (length ps) \<Longrightarrow>
     add_pages ps idxs w = Inr (w @ map (\<lambda>i. ps ! nat i) idxs)"
  by (induction idxs arbitrary: w) (simp_all add: py_getitem_def)

lemma nths_of_range:
  assumes "0 \<le> a"
  shows "map (\<lambda>i. ps ! nat i) (py_range a (min b (int (length ps)))) =
     drop (nat a) (take (nat b) ps)"
proof (rule nth_equalityI)
  show "length (map (\<lambda>i. ps ! nat i) (py_range a (min b (int (length ps))))) =
      length (drop (nat a) (take (nat b) ps))"
    using assms by (auto simp: py_range_def)
next
  fix k assume "k < length (map (\<lambda>i. ps ! nat i) (py_range a (min b (int (length ps)))))"
  then have k: "a + int k < b" "a + int k < int (length ps)"
    by (auto simp: py_range_def)
  then have "py_range a (min b (int (length ps))) ! k = a + int k"
    by (simp add: py_range_def)
  moreover have "nat (a + int k) = nat a + k"
    using assms by (simp add: nat_add_distrib)
  moreover have "nat a + k < nat b" "nat a + k < length ps"
    using k assms by linarith+
  ultimately show "map (\<lambda>i. ps ! nat i) (py_range a (min b (int (length ps)))) ! k =
      drop (nat a) (take (nat b) ps) ! k"
    using k by (simp add: py_range_def)
qed

lemma split_pdf_range:
  assumes "reader pdf_path = Inr ps" and "1 \<le> start_page" and "end_page \<noteq> 0"
  shows "split_pdf reader pdf_path output_dir ''range'' (Some start_page) (Some end_page) page_list =
     Inr [(range_file output_dir (path_stem (Path pdf_path)) start_page end_page,
           drop (nat (start_page - 1)) (take (nat end_page) ps))]"
proof -
  have "\<forall>i \<in> set (py_range (start_page - 1) (min end_page (int (length ps)))).
      0 \<le> i \<and> i < int (length ps)"
    using assms(2) by (auto simp: py_range_def)
  from add_pages_in_range [OF this, of "[]"] nths_of_range [of "start_page - 1" ps end_page]
  show ?thesis
    using assms by (simp add: split_pdf_def truthy_int_def Let_def)
qed

lemma split_pdf_extract:
  assumes "reader pdf_path = Inr ps" and "pgs \<noteq> []"
  shows "split_pdf reader pdf_path output_dir ''extract'' start_page end_page (Some pgs) =
     Inr [(extract_file output_dir (path_stem (Path pdf_path)) pgs,
           map (\<lambda>page_num. ps ! nat (page_num - 1))
             (filter (\<lambda>page_num. 1 \<le> page_num \<and> page_num \<le> int (length ps)) pgs))]"
proof -
  let ?idxs = "map (\<lambda>page_num. page_num - 1)
      (filter (\<lambda>page_num. 1 \<le> page_num \<and> page_num \<le> int (length ps)) pgs)"
  have "\<forall>i \<in> set ?idxs. 0 \<le> i \<and> i < int (length ps)"
    by auto
  from add_pages_in_range [OF this, of "[]"]
  show ?thesis
    using assms by (simp add: split_pdf_def truthy_list_def Let_def comp_def)
qed


lemma split_block_one_file:
  assumes "parse_page_list pages_field = Inr page_list"
    and "split_pdf reader input_path
           (DOWNLOAD_DIR cfg @ ''/split_'' @ py_str_int (py_int_of_float (name_time clock)))
           (mode_value mode) start_page end_page page_list = Inr [(path, pdf_pages)]"
  shows "\<exists>resp info.
      snd (split_block cfg reader pdf_size clock fs mode start_page end_page pages_field input_path) =
        Inr resp
      \<and> split_success resp \<and> split_files resp = [info]
      \<and> file_size info = pdf_size pdf_pages"
  using assms by (simp add: split_block_def Let_def os_stat_fresh)

lemma split_pdf_endpoint_valid:
  assumes "validate_pdf_file file = Inr ()"
  shows "snd (split_pdf_endpoint cfg reader pdf_size clock fs file mode start_page end_page pages_field) =
     snd (split_block cfg reader pdf_size clock
            (fst (save_upload_file cfg fs file ''split'' (save_time clock) (save_uuid clock)))
            mode start_page end_page pages_field
            (snd (save_upload_file cfg fs file ''split'' (save_time clock) (save_uuid clock))))"
  using assms
  by (simp add: split_pdf_endpoint_def try_finally_cleanup_def split: prod.split)

text \<open>
  Claim C4, as the code has it.  Out-of-range page values of a split are not errors.  A
  \<open>range\<close> split with \<open>start_page \<ge> 1\<close> writes the pages from \<open>start_page\<close> to
  \<open>min(end_page, total_pages)\<close>: an \<open>end_page\<close> beyond the page count is clamped to the
  last page.  An \<open>extract\<close> split writes the listed pages that lie in
  \<open>1..total_pages\<close> and skips the others.  In both cases the service returns one
  output file and the handler answers with success and that one file.
\<close>

theorem split_pdf_clamps_and_skips:
  assumes "validate_pdf_file file = Inr ()"
  shows "(1 \<le> start_page \<and> end_page \<noteq> 0 \<longrightarrow>
           split_pdf (\<lambda>path. Inr ps) pdf_path output_dir ''range''
               (Some start_page) (Some end_page) None =
             Inr [(range_file output_dir (path_stem (Path pdf_path)) start_page end_page,
                   drop (nat (start_page - 1)) (take (nat end_page) ps))]
         \<and> (\<exists>resp info.
               snd (split_pdf_endpoint cfg (\<lambda>path. Inr ps) pdf_size clock fs file SPLIT_RANGE
                      (Some start_page) (Some end_page) None) = Inr resp
               \<and> split_success resp \<and> split_files resp = [info]
               \<and> file_size info =
                   pdf_size (drop (nat (start_page - 1)) (take (nat end_page) ps))))
       \<and> (parse_page_list pages_field = Inr (Some pgs) \<and> pgs \<noteq> [] \<longrightarrow>
           split_pdf (\<lambda>path. Inr ps) pdf_path output_dir ''extract''
               start_page' end_page' (Some pgs) =
             Inr [(extract_file output_dir (path_stem (Path pdf_path)) pgs,
                   map (\<lambda>page_num. ps ! nat (page_num - 1))
                     (filter (\<lambda>page_num. 1 \<le> page_num \<and> page_num \<le> int (length ps)) pgs))]
         \<and> (\<exists>resp info.
               snd (split_pdf_endpoint cfg (\<lambda>path. Inr ps) pdf_size clock fs file SPLIT_EXTRACT
                      start_page' end_page' pages_field) = Inr resp
               \<and> split_success resp \<and> split_files resp = [info]
               \<and> file_size info =
                   pdf_size (map (\<lambda>page_num. ps ! nat (page_num - 1))
                     (filter (\<lambda>page_num. 1 \<le> page_num \<and> page_num \<le> int (length ps)) pgs))))"
proof (intro conjI impI)
  assume a: "1 \<le> start_page \<and> end_page \<noteq> 0"
  then show "split_pdf (\<lambda>path. Inr ps) pdf_path output_dir ''range''
               (Some start_page) (Some end_page) None =
             Inr [(range_file output_dir (path_stem (Path pdf_path)) start_page end_page,
                   drop (nat (start_page - 1)) (take (nat end_page) ps))]"
    by (simp add: split_pdf_range)
  have none: "parse_page_list None = Inr None"
    by (simp add: parse_page_list_def)
  from a show "\<exists>resp info.
      snd (split_pdf_endpoint cfg (\<lambda>path. Inr ps) pdf_size clock fs file SPLIT_RANGE
             (Some start_page) (Some end_page) None) = Inr resp
      \<and> split_success resp \<and> split_files resp = [info]
      \<and> file_size info = pdf_size (drop (nat (start_page - 1)) (take (nat end_page) ps))"
    unfolding split_pdf_endpoint_valid [OF assms]
    by (intro split_block_one_file [OF none]) (simp add: split_pdf_range)
next
  assume a: "parse_page_list pages_field = Inr (Some pgs) \<and> pgs \<noteq> []"
  then show "split_pdf (\<lambda>path. Inr ps) pdf_path output_dir ''extract''
               start_page' end_page' (Some pgs) =
             Inr [(extract_file output_dir (path_stem (Path pdf_path)) pgs,
                   map (\<lambda>page_num. ps ! nat (page_num - 1))
                     (filter (\<lambda>page_num. 1 \<le> page_num \<and> page_num \<le> int (length ps)) pgs))]"
    by (simp add: split_pdf_extract)
  from a have p: "parse_page_list pages_field = Inr (Some pgs)" and ne: "pgs \<noteq> []"
    by simp_all
  show "\<exists>resp info.
      snd (split_pdf_endpoint cfg (\<lambda>path. Inr ps) pdf_size clock fs file SPLIT_EXTRACT
             start_page' end_page' pages_field) = Inr resp
      \<and> split_success resp \<and> split_files resp = [info]
      \<and> file_size info =
          pdf_size (map (\<lambda>page_num. ps ! nat (page_num - 1))
            (filter (\<lambda>page_num. 1 \<le> page_num \<and> page_num \<le> int (length ps)) pgs))"
    unfolding split_pdf_endpoint_valid [OF assms]
    by (intro split_block_one_file [OF p]) (simp add: split_pdf_extract ne)
qed

text \<open>
  On the three-page upload, pages 2 to 10 are asked for and pages 2 and 3 are written.
\<close>

theorem split_pdf_clamps_and_skips_witness:
  "validate_pdf_file book_upload = Inr ()
   \<and> split_pdf (\<lambda>path. Inr [1, 2, 3 :: nat]) ''in.pdf'' ''out'' ''range'' (Some 2) (Some 10) None =
       Inr [(range_file ''out'' (path_stem (Path ''in.pdf'')) 2 10, [2, 3])]
   \<and> (\<exists>resp info.
         snd (split_pdf_endpoint default_settings (\<lambda>path. Inr [1, 2, 3 :: nat]) length
                split_clock [] book_upload SPLIT_RANGE (Some 2) (Some 10) None) = Inr resp
         \<and> split_success resp \<and> split_files resp = [info] \<and> file_size info = 2)"
proof -
  have valid: "validate_pdf_file book_upload = Inr ()"
    by code_simp
  have pages: "drop (nat (2 - 1)) (take (nat 10) [1, 2, 3 :: nat]) = [2, 3]"
    by simp
  have "(1 :: int) \<le> 2 \<and> (10 :: int) \<noteq> 0"
    by simp
  with split_pdf_clamps_and_skips [OF valid,
      where start_page = 2 and end_page = 10 and ps = "[1, 2, 3 :: nat]"
        and pdf_path = "''in.pdf''" and output_dir = "''out''" and cfg = default_settings
        and pdf_size = length and clock = split_clock and fs = "[]"
        and pages_field = None and pgs = "[]" and start_page' = None and end_page' = None]
  have "split_pdf (\<lambda>path. Inr [1, 2, 3 :: nat]) ''in.pdf'' ''out'' ''range'' (Some 2) (Some 10) None =
        Inr [(range_file ''out'' (path_stem (Path ''in.pdf'')) 2 10,
              drop (nat (2 - 1)) (take (nat 10) [1, 2, 3]))]
      \<and> (\<exists>resp info.
            snd (split_pdf_endpoint default_settings (\<lambda>path. Inr [1, 2, 3 :: nat]) length
                   split_clock [] book_upload SPLIT_RANGE (Some 2) (Some 10) None) = Inr resp
            \<and> split_success resp \<and> split_files resp = [info]
            \<and> file_size info = length (drop (nat (2 - 1)) (take (nat 10) [1, 2, 3 :: nat])))"
    by blast
  then show ?thesis
    unfolding pages using valid by (simp add: numeral_2_eq_2)
qed

text \<open>
  The claim as stated fails on the same request: the handler does not answer with an
  error but with success and a file of two pages; and an \<open>extract\<close> of the pages 3 and 7
  is answered with success and a file that holds page 3 alone.
\<close>

theorem split_pdf_out_of_range_counterexample:
  "snd (split_pdf_endpoint default_settings three_pages length split_clock [] book_upload
          SPLIT_RANGE (Some 2) (Some 10) None) =
     Inr \<lparr> split_success = True,
           split_files =
             [\<lparr> file_url = ''/downloads/split_102/book_100_ab12cd34_pages_2-10.pdf'',
                file_name = ''book_100_ab12cd34_pages_2-10.pdf'',
                file_size = 2 \<rparr>],
           split_processing_time = 2 \<rparr>
   \<and> split_pdf three_pages ''uploads/split/book_100_ab12cd34.pdf'' ''./downloads/split_101''
         ''range'' (Some 2) (Some 10) None =
       Inr [(''./downloads/split_101/book_100_ab12cd34_pages_2-10.pdf'', [2, 3])]
   \<and> snd (split_pdf_endpoint default_settings three_pages length split_clock [] book_upload
          SPLIT_EXTRACT None None (Some (code_points ''3, 7''))) =
     Inr \<lparr> split_success = True,
           split_files =
             [\<lparr> file_url = ''/downloads/split_102/book_100_ab12cd34_extracted_3_7.pdf'',
                file_name = ''book_100_ab12cd34_extracted_3_7.pdf'',
                file_size = 1 \<rparr>],
           split_processing_time = 2 \<rparr>"
  by code_simp


section \<open>Properties of the sweep\<close>








section \<open>Properties of the handlers: cleanup of the temporary input\<close>





section \<open>Properties of the handlers and the sweep: who deletes output files\<close>









section \<open>Properties of the responses\<close>

lemma to_word_success_valid:
  "snd (pdf_to_word_endpoint cfg env disk clock fs file mode) = Inr resp \<Longrightarrow>
     validate_pdf_file file = Inr ()"
  by (cases "validate_pdf_file file") (simp_all add: pdf_to_word_endpoint_def)

lemma split_success_valid:
  "snd (split_pdf_endpoint cfg reader pdf_size clock fs file mode start_page end_page pages_field) = Inr resp \<Longrightarrow>
     validate_pdf_file file = Inr ()"
  by (cases "validate_pdf_file file") (simp_all add: split_pdf_endpoint_def)

lemma to_word_block_response:
  assumes "snd (to_word_block cfg env disk clock fs file mode input_path) = Inr resp"
  shows "let output_filename =
               generate_filename (filename_or file ''document'') (Some ''.docx'')
                 (name_time clock) (name_uuid clock);
             after = disk input_path (DOWNLOAD_DIR cfg @ ''/'' @ output_filename) fs
         in file_url resp = ''/downloads/'' @ output_filename
          \<and> file_name resp = output_filename
          \<and> (\<exists>f. os_stat after (DOWNLOAD_DIR cfg @ ''/'' @ output_filename) = Inr f
                 \<and> file_size resp = st_size f)
          \<and> processing_time resp = end_time clock - start_time clock
          \<and> success resp"
  using assms
  by (auto simp: to_word_block_def Let_def split: sum.splits)

lemma files_info_entries:
  "files_info fs clock_at k paths = Inr infos \<Longrightarrow>
     length infos = length paths
     \<and> (\<forall>j < length paths.
          file_name (infos ! j) = path_name (Path (paths ! j))
          \<and> file_url (infos ! j) =
              ''/downloads/split_'' @ py_str_int (py_int_of_float (clock_at (k + j))) @ ''/''
                @ file_name (infos ! j)
          \<and> (\<exists>f. os_stat fs (paths ! j) = Inr f \<and> file_size (infos ! j) = st_size f))"
proof (induction paths arbitrary: k infos)
  case Nil
  then show ?case by simp
next
  case (Cons path paths)
  from Cons.prems obtain f rest where
    f: "os_stat fs path = Inr f" and rest: "files_info fs clock_at (Suc k) paths = Inr rest"
    and infos: "infos = \<lparr> file_url = ''/downloads/split_''
                   @ py_str_int (py_int_of_float (clock_at k)) @ ''/'' @ path_name (Path path),
                 file_name = path_name (Path path), file_size = st_size f \<rparr> # rest"
    by (auto simp: Let_def split: sum.splits)
  from Cons.IH [OF rest] show ?case
    by (auto simp: infos f nth_Cons split: nat.splits)
qed


lemma split_block_response:
  assumes "snd (split_block cfg reader pdf_size clock fs mode start_page end_page pages_field input_path) = Inr resp"
  shows "split_success resp
     \<and> split_processing_time resp = end_time clock - start_time clock
     \<and> (\<exists>page_list written.
           parse_page_list pages_field = Inr page_list
           \<and> split_pdf reader input_path
                 (DOWNLOAD_DIR cfg @ ''/split_'' @ py_str_int (py_int_of_float (name_time clock)))
                 (mode_value mode) start_page end_page page_list = Inr written
           \<and> length (split_files resp) = length written
           \<and> (\<forall>k < length written.
                 file_name (split_files resp ! k) = path_name (Path (fst (written ! k)))
                 \<and> file_url (split_files resp ! k) =
                     ''/downloads/split_'' @ py_str_int (py_int_of_float (entry_time clock k))
                       @ ''/'' @ file_name (split_files resp ! k)
                 \<and> (\<exists>f. os_stat (write_pdfs pdf_size (name_time clock) fs written)
                            (fst (written ! k)) = Inr f
                        \<and> file_size (split_files resp ! k) = st_size f)))"
proof -
  let ?dir = "DOWNLOAD_DIR cfg @ ''/split_'' @ py_str_int (py_int_of_float (name_time clock))"
  from assms obtain page_list where p: "parse_page_list pages_field = Inr page_list"
    by (cases "parse_page_list pages_field") (simp_all add: split_block_def Let_def)
  from assms p obtain written where
    w: "split_pdf reader input_path ?dir (mode_value mode) start_page end_page page_list = Inr written"
    by (cases "split_pdf reader input_path ?dir (mode_value mode) start_page end_page page_list")
      (simp_all add: split_block_def Let_def)
  let ?after = "write_pdfs pdf_size (name_time clock) fs written"
  from assms p w obtain infos where
    i: "files_info ?after (entry_time clock) 0 (map fst written) = Inr infos"
    and r: "resp = \<lparr> split_success = True, split_files = infos,
                      split_processing_time = end_time clock - start_time clock \<rparr>"
    by (cases "files_info ?after (entry_time clock) 0 (map fst written)")
      (simp_all add: split_block_def Let_def)
  from files_info_entries [OF i] p w r show ?thesis
    by auto
qed

text \<open>
  Claim C9, as the code has it.  For every successful single-output PDF conversion
  request (shown on \<open>/pdf/to-word\<close>), the handler returns an object whose \<open>file_url\<close> is
  \<open>/downloads/\<close> followed by the generated output file name, whose \<open>file_size\<close> is the
  byte size of the file at that name in the downloads directory, and whose
  \<open>processing_time\<close> is the time elapsed since the start of the request.  The split
  handler returns one object with a success flag, one processing time for the whole
  request and a list with one entry per output file; an entry has the file name, the
  byte size of that file, and a \<open>file_url\<close> of the form
  \<open>/downloads/split_<integer clock reading>/<file name>\<close>, and no processing time of
  its own.
\<close>

theorem endpoint_responses:
  "(snd (pdf_to_word_endpoint cfg env disk clock fs file mode) = Inr resp \<longrightarrow>
      (let output_filename =
             generate_filename (filename_or file ''document'') (Some ''.docx'')
               (name_time clock) (name_uuid clock);
           saved = save_upload_file cfg fs file ''pdf'' (save_time clock) (save_uuid clock);
           after = disk (snd saved) (DOWNLOAD_DIR cfg @ ''/'' @ output_filename) (fst saved)
       in file_url resp = ''/downloads/'' @ output_filename
        \<and> file_name resp = output_filename
        \<and> (\<exists>f. os_stat after (DOWNLOAD_DIR cfg @ ''/'' @ output_filename) = Inr f
               \<and> file_size resp = st_size f)
        \<and> processing_time resp = end_time clock - start_time clock
        \<and> success resp))
   \<and> (snd (split_pdf_endpoint cfg reader pdf_size sclock fs file smode
              start_page end_page pages_field) = Inr sresp \<longrightarrow>
      (let saved = save_upload_file cfg fs file ''split'' (save_time sclock) (save_uuid sclock);
           output_dir =
             DOWNLOAD_DIR cfg @ ''/split_'' @ py_str_int (py_int_of_float (name_time sclock))
       in split_success sresp
        \<and> split_processing_time sresp = end_time sclock - start_time sclock
        \<and> (\<exists>page_list written.
              parse_page_list pages_field = Inr page_list
              \<and> split_pdf reader (snd saved) output_dir (mode_value smode)
                    start_page end_page page_list = Inr written
              \<and> length (split_files sresp) = length written
              \<and> (\<forall>k < length written.
                    file_name (split_files sresp ! k) = path_name (Path (fst (written ! k)))
                    \<and> file_url (split_files sresp ! k) =
                        ''/downloads/split_''
                          @ py_str_int (py_int_of_float (entry_time sclock k))
                          @ ''/'' @ file_name (split_files sresp ! k)
                    \<and> (\<exists>f. os_stat (write_pdfs pdf_size (name_time sclock) (fst saved) written)
                               (fst (written ! k)) = Inr f
                           \<and> file_size (split_files sresp ! k) = st_size f)))))"
proof (intro conjI impI)
  assume ok: "snd (pdf_to_word_endpoint cfg env disk clock fs file mode) = Inr resp"
  then have valid: "validate_pdf_file file = Inr ()"
    by (rule to_word_success_valid)
  from ok have "snd (to_word_block cfg env disk clock
      (fst (save_upload_file cfg fs file ''pdf'' (save_time clock) (save_uuid clock)))
      file mode
      (snd (save_upload_file cfg fs file ''pdf'' (save_time clock) (save_uuid clock)))) = Inr resp"
    unfolding pdf_to_word_endpoint_valid [OF valid] by (simp add: Let_def)
  from to_word_block_response [OF this]
  show "let output_filename =
             generate_filename (filename_or file ''document'') (Some ''.docx'')
               (name_time clock) (name_uuid clock);
           saved = save_upload_file cfg fs file ''pdf'' (save_time clock) (save_uuid clock);
           after = disk (snd saved) (DOWNLOAD_DIR cfg @ ''/'' @ output_filename) (fst saved)
       in file_url resp = ''/downloads/'' @ output_filename
        \<and> file_name resp = output_filename
        \<and> (\<exists>f. os_stat after (DOWNLOAD_DIR cfg @ ''/'' @ output_filename) = Inr f
               \<and> file_size resp = st_size f)
        \<and> processing_time resp = end_time clock - start_time clock
        \<and> success resp"
    by (simp add: Let_def)
next
  assume ok: "snd (split_pdf_endpoint cfg reader pdf_size sclock fs file smode
      start_page end_page pages_field) = Inr sresp"
  then have valid: "validate_pdf_file file = Inr ()"
    by (rule split_success_valid)
  from ok have "snd (split_block cfg reader pdf_size sclock
      (fst (save_upload_file cfg fs file ''split'' (save_time sclock) (save_uuid sclock)))
      smode start_page end_page pages_field
      (snd (save_upload_file cfg fs file ''split'' (save_time sclock) (save_uuid sclock)))) = Inr sresp"
    unfolding split_pdf_endpoint_valid [OF valid] .
  from split_block_response [OF this]
  show "let saved = save_upload_file cfg fs file ''split'' (save_time sclock) (save_uuid sclock);
           output_dir =
             DOWNLOAD_DIR cfg @ ''/split_'' @ py_str_int (py_int_of_float (name_time sclock))
       in split_success sresp
        \<and> split_processing_time sresp = end_time sclock - start_time sclock
        \<and> (\<exists>page_list written.
              parse_page_list pages_field = Inr page_list
              \<and> split_pdf reader (snd saved) output_dir (mode_value smode)
                    start_page end_page page_list = Inr written
              \<and> length (split_files sresp) = length written
              \<and> (\<forall>k < length written.
                    file_name (split_files sresp ! k) = path_name (Path (fst (written ! k)))
                    \<and> file_url (split_files sresp ! k) =
                        ''/downloads/split_''
                          @ py_str_int (py_int_of_float (entry_time sclock k))
                          @ ''/'' @ file_name (split_files sresp ! k)
                    \<and> (\<exists>f. os_stat (write_pdfs pdf_size (name_time sclock) (fst saved) written)
                               (fst (written ! k)) = Inr f
                           \<and> file_size (split_files sresp ! k) = st_size f)))"
    by (simp add: Let_def)
qed

text \<open>
  A successful conversion of \<open>Annual Report.PDF\<close>: the response names the generated
  file, reports the 777 bytes the conversion wrote, and two seconds of processing.
\<close>

theorem endpoint_responses_witness:
  "snd (pdf_to_word_endpoint default_settings pdf2docx_fails writing_disk word_clock []
          report_upload ''auto'') =
     Inr \<lparr> file_url = ''/downloads/Annual Report_101_ffee0011.docx'',
           file_name = ''Annual Report_101_ffee0011.docx'',
           file_size = 777, success = True, processing_time = 2 \<rparr>
   \<and> generate_filename (filename_or report_upload ''document'') (Some ''.docx'')
         (name_time word_clock) (name_uuid word_clock) = ''Annual Report_101_ffee0011.docx''
   \<and> end_time word_clock - start_time word_clock = 2"
proof -
  let ?resp = "\<lparr> file_url = ''/downloads/Annual Report_101_ffee0011.docx'',
           file_name = ''Annual Report_101_ffee0011.docx'',
           file_size = 777, success = True, processing_time = 2 \<rparr>"
  have ok: "snd (pdf_to_word_endpoint default_settings pdf2docx_fails writing_disk word_clock []
          report_upload ''auto'') = Inr ?resp"
    by code_simp
  from endpoint_responses [THEN conjunct1, rule_format, OF ok]
  have "file_url ?resp =
      ''/downloads/'' @ generate_filename (filename_or report_upload ''document'') (Some ''.docx'')
         (name_time word_clock) (name_uuid word_clock)"
    and "processing_time ?resp = end_time word_clock - start_time word_clock"
    by (simp_all add: Let_def)
  with ok show ?thesis
    by simp
qed

text \<open>
  The claim as stated fails on the split handler: its per-file objects are not of the
  shape of the single-output response.  Splitting the three-page upload into pages
  gives three entries whose \<open>file_url\<close> is not \<open>/downloads/\<close> followed by the file name
  (the directory \<open>split_101\<close> stands between), and the processing time stands once,
  beside the list.
\<close>

theorem split_response_shape_counterexample:
  "snd (split_pdf_endpoint default_settings three_pages length same_second_clock []
          book_upload SPLIT_ALL None None None) =
     Inr \<lparr> split_success = True,
           split_files =
             [\<lparr> file_url = ''/downloads/split_101/book_100_ab12cd34_page_1.pdf'',
                file_name = ''book_100_ab12cd34_page_1.pdf'', file_size = 1 \<rparr>,
              \<lparr> file_url = ''/downloads/split_101/book_100_ab12cd34_page_2.pdf'',
                file_name = ''book_100_ab12cd34_page_2.pdf'', file_size = 1 \<rparr>,
              \<lparr> file_url = ''/downloads/split_101/book_100_ab12cd34_page_3.pdf'',
                file_name = ''book_100_ab12cd34_page_3.pdf'', file_size = 1 \<rparr>],
           split_processing_time = 2 \<rparr>
   \<and> ''/downloads/split_101/book_100_ab12cd34_page_1.pdf'' \<noteq>
       ''/downloads/'' @ ''book_100_ab12cd34_page_1.pdf''"
  by code_simp


end
